theory Spec2Isabelle
  imports Complex_Main
begin

section \<open>CrediVist: scoring and loan-eligibility core\<close>

text \<open>
  The Python sources \<^verbatim>\<open>src/scoring_engine.py\<close>, \<^verbatim>\<open>src/loan_engine.py\<close> and
  \<^verbatim>\<open>src/alternative_profiles.py\<close> are embedded as HOL functions.  Python floats are
  read as real numbers with exact arithmetic; Python ints are \<open>int\<close>.  The built-in
  \<^verbatim>\<open>round\<close> rounds to the nearest value and sends a tie to the even neighbour.
\<close>

subsection \<open>Numeric helpers of the Python runtime\<close>

definition round_half_even :: "real \<Rightarrow> int" where
  "round_half_even x =
     (let f = \<lfloor>x\<rfloor>; d = x - of_int f
      in if d < 1 / 2 then f
         else if 1 / 2 < d then f + 1
         else if even f then f else f + 1)"

text \<open>\<^verbatim>\<open>round(x, nd)\<close> for a float \<open>x\<close> and \<open>nd \<ge> 0\<close> digits.\<close>

definition py_round :: "real \<Rightarrow> nat \<Rightarrow> real" where
  "py_round x nd = of_int (round_half_even (x * 10 ^ nd)) / 10 ^ nd"

text \<open>\<^verbatim>\<open>np.clip(x, lo, hi)\<close> on a scalar is \<^verbatim>\<open>minimum(maximum(x, lo), hi)\<close>.\<close>

definition clip :: "real \<Rightarrow> real \<Rightarrow> real \<Rightarrow> real" where
  "clip x lo hi = min (max x lo) hi"

subsection \<open>EMI calculator (\<^verbatim>\<open>loan_engine.py\<close>)\<close>

text \<open>
  \<^verbatim>\<open>math.pow(1 + r, n)\<close> is only reached with \<open>n > 0\<close>, where it is the
  \<open>n\<close>-th power.
\<close>

definition calculate_emi :: "real \<Rightarrow> real \<Rightarrow> int \<Rightarrow> real" where
  "calculate_emi prin annual_rate tenure_months =
     (if prin \<le> 0 \<or> tenure_months \<le> 0 then 0
      else if annual_rate \<le> 0 then prin / of_int tenure_months
      else
        let r = annual_rate / (12 * 100);
            n = nat tenure_months;
            emi = prin * r * (1 + r) ^ n / ((1 + r) ^ n - 1)
        in py_round emi 2)"

definition calculate_total_interest :: "real \<Rightarrow> real \<Rightarrow> int \<Rightarrow> real" where
  "calculate_total_interest prin annual_rate tenure_months =
     (let emi = calculate_emi prin annual_rate tenure_months;
          total_paid = emi * of_int tenure_months
      in py_round (total_paid - prin) 2)"

definition max_loan_from_emi :: "real \<Rightarrow> real \<Rightarrow> int \<Rightarrow> real" where
  "max_loan_from_emi max_emi annual_rate tenure_months =
     (if max_emi \<le> 0 \<or> tenure_months \<le> 0 then 0
      else if annual_rate \<le> 0 then max_emi * of_int tenure_months
      else
        let r = annual_rate / (12 * 100);
            n = nat tenure_months;
            result = max_emi * ((1 + r) ^ n - 1) / (r * (1 + r) ^ n)
        in py_round result 2)"

subsection \<open>Text formatting of numbers\<close>

text \<open>Decimal digits of a natural number, as \<^verbatim>\<open>str\<close> prints them.\<close>

fun digit_char :: "nat \<Rightarrow> char" where
  "digit_char n = char_of (48 + n)"

function show_nat :: "nat \<Rightarrow> string" where
  "show_nat n = (if n < 10 then [digit_char n] else show_nat (n div 10) @ [digit_char (n mod 10)])"
  by pat_completeness auto
termination
  by (relation "measure (\<lambda>n. n)") auto

definition show_int :: "int \<Rightarrow> string" where
  "show_int i = (if i < 0 then ''-'' @ show_nat (nat (- i)) else show_nat (nat i))"

text \<open>
  \<^verbatim>\<open>f"{x:.0f}"\<close>: the float rounded to no decimals (ties to even); a negative value
  keeps its sign even when it rounds to zero.  \<^verbatim>\<open>f"{x:.0%}"\<close> formats \<open>100 x\<close> the same
  way and appends a percent sign.
\<close>

definition fmt_f0 :: "real \<Rightarrow> string" where
  "fmt_f0 x = (if x < 0 then ''-'' else '''') @ show_nat (nat \<bar>round_half_even x\<bar>)"

definition fmt_pct0 :: "real \<Rightarrow> string" where
  "fmt_pct0 x = fmt_f0 (x * 100) @ ''%''"

subsection \<open>Score tiers (\<^verbatim>\<open>SCORE_TIERS\<close>, \<^verbatim>\<open>get_score_tier\<close>)\<close>

text \<open>
  One entry of \<^verbatim>\<open>SCORE_TIERS\<close>.  \<open>tier_key\<close> is the dictionary key, which
  \<^verbatim>\<open>get_score_tier\<close> adds to the entry it returns.
\<close>

record score_tier =
  tier_key :: string
  score_range :: "int \<times> int"
  grade :: string
  max_simultaneous_loans :: int
  max_exposure_multiplier :: real
  base_interest_range :: "real \<times> real"
  max_tenure_months :: int
  foir_cap :: real
  collateral_required :: bool
  processing_fee_pct :: real
  pre_approval :: string
  color :: string

definition tier_excellent :: score_tier where
  "tier_excellent = \<lparr> tier_key = ''excellent'', score_range = (750, 900), grade = ''Excellent'',
     max_simultaneous_loans = 3, max_exposure_multiplier = 6, base_interest_range = (9, 12),
     max_tenure_months = 60, foir_cap = 0.50, collateral_required = False,
     processing_fee_pct = 1, pre_approval = ''Pre-Approved'', color = ''#22c55e'' \<rparr>"

definition tier_good :: score_tier where
  "tier_good = \<lparr> tier_key = ''good'', score_range = (650, 749), grade = ''Good'',
     max_simultaneous_loans = 2, max_exposure_multiplier = 4, base_interest_range = (13, 16),
     max_tenure_months = 36, foir_cap = 0.40, collateral_required = False,
     processing_fee_pct = 1.5, pre_approval = ''Likely Approved'', color = ''#84cc16'' \<rparr>"

definition tier_fair :: score_tier where
  "tier_fair = \<lparr> tier_key = ''fair'', score_range = (500, 649), grade = ''Fair'',
     max_simultaneous_loans = 1, max_exposure_multiplier = 2, base_interest_range = (18, 22),
     max_tenure_months = 18, foir_cap = 0.35, collateral_required = False,
     processing_fee_pct = 2, pre_approval = ''Needs Review'', color = ''#eab308'' \<rparr>"

definition tier_poor :: score_tier where
  "tier_poor = \<lparr> tier_key = ''poor'', score_range = (400, 499), grade = ''Poor'',
     max_simultaneous_loans = 1, max_exposure_multiplier = 1, base_interest_range = (24, 30),
     max_tenure_months = 12, foir_cap = 0.30, collateral_required = True,
     processing_fee_pct = 2.5, pre_approval = ''High Risk'', color = ''#f97316'' \<rparr>"

definition tier_very_poor :: score_tier where
  "tier_very_poor = \<lparr> tier_key = ''very_poor'', score_range = (300, 399), grade = ''Very Poor'',
     max_simultaneous_loans = 0, max_exposure_multiplier = 0, base_interest_range = (0, 0),
     max_tenure_months = 0, foir_cap = 0, collateral_required = True,
     processing_fee_pct = 0, pre_approval = ''Not Eligible'', color = ''#ef4444'' \<rparr>"

text \<open>The dictionary in its insertion order, which is the order the lookup iterates in.\<close>

definition SCORE_TIERS :: "score_tier list" where
  "SCORE_TIERS = [tier_excellent, tier_good, tier_fair, tier_poor, tier_very_poor]"

text \<open>
  The loop of \<^verbatim>\<open>get_score_tier\<close>: the first tier whose closed range holds the score,
  or \<open>None\<close> when the loop ends without returning.
\<close>

fun tier_scan :: "real \<Rightarrow> score_tier list \<Rightarrow> score_tier option" where
  "tier_scan score [] = None"
| "tier_scan score (tier # tiers) =
     (let (low, high) = score_range tier
      in if of_int low \<le> score \<and> score \<le> of_int high then Some tier
         else tier_scan score tiers)"

definition get_score_tier :: "real \<Rightarrow> score_tier" where
  "get_score_tier score =
     (case tier_scan score SCORE_TIERS of
        Some tier \<Rightarrow> tier
      | None \<Rightarrow> tier_very_poor)"

subsection \<open>Repayment capacity (\<^verbatim>\<open>analyze_repayment_capacity\<close>)\<close>

record repayment_capacity =
  rc_monthly_income :: real
  rc_monthly_expenses :: real
  rc_existing_emi :: real
  rc_disposable_income :: real
  rc_max_total_emi :: real
  rc_max_new_emi :: real
  rc_current_foir :: real
  rc_foir_limit :: real
  rc_foir_headroom :: real
  rc_risk_flags :: "string list"
  rc_verdict :: string

definition analyze_repayment_capacity :: "real \<Rightarrow> real \<Rightarrow> real \<Rightarrow> real \<Rightarrow> repayment_capacity" where
  "analyze_repayment_capacity monthly_income monthly_expenses existing_emi foir_cap' =
     (if monthly_income \<le> 0 then
        \<lparr> rc_monthly_income = 0, rc_monthly_expenses = monthly_expenses,
          rc_existing_emi = existing_emi, rc_disposable_income = 0, rc_max_total_emi = 0,
          rc_max_new_emi = 0, rc_current_foir = 0, rc_foir_limit = foir_cap',
          rc_foir_headroom = 0, rc_risk_flags = [''Zero or negative income detected''],
          rc_verdict = ''NOT_ELIGIBLE'' \<rparr>
      else
        let disposable = monthly_income - monthly_expenses;
            max_total_emi = monthly_income * foir_cap';
            max_new_emi = max (max_total_emi - existing_emi) 0;
            current_foir = (if monthly_income > 0 then existing_emi / monthly_income else 0);
            headroom = max (foir_cap' - current_foir) 0;
            risk_flags =
              (if current_foir > 0.50
               then [''Over-leveraged: Existing EMIs exceed 50% of income''] else [])
              @ (if current_foir > foir_cap'
                 then [''FOIR exceeded: '' @ fmt_pct0 current_foir @ '' > ''
                         @ fmt_pct0 foir_cap' @ '' limit''] else [])
              @ (if disposable < monthly_income * 0.20
                 then [''Low disposable income: Less than 20% of earnings remain''] else [])
              @ (if existing_emi > 0 \<and> max_new_emi < 1000
                 then [''Very limited new EMI capacity''] else []);
            verdict =
              (if max_new_emi \<le> 0 then ''NOT_ELIGIBLE''
               else if max_new_emi < 2000 then ''MICRO_ONLY''
               else if length risk_flags > 0 then ''ELIGIBLE_WITH_CAUTION''
               else ''ELIGIBLE'')
        in \<lparr> rc_monthly_income = py_round monthly_income 2,
             rc_monthly_expenses = py_round monthly_expenses 2,
             rc_existing_emi = py_round existing_emi 2,
             rc_disposable_income = py_round disposable 2,
             rc_max_total_emi = py_round max_total_emi 2,
             rc_max_new_emi = py_round max_new_emi 2,
             rc_current_foir = py_round current_foir 4,
             rc_foir_limit = foir_cap',
             rc_foir_headroom = py_round headroom 4,
             rc_risk_flags = risk_flags,
             rc_verdict = verdict \<rparr>)"

subsection \<open>Final score (\<^verbatim>\<open>scoring_engine.py\<close>)\<close>

definition MAX_SCORE :: real where "MAX_SCORE = 900"
definition MIN_SCORE :: real where "MIN_SCORE = 300"

text \<open>
  The fields of the data row that \<^verbatim>\<open>compute_data_confidence\<close> reads, already
  converted to numbers.  \<open>incomes_len\<close> is the length of the income history, or \<open>None\<close>
  when reading it raises (the \<^verbatim>\<open>except\<close> branch).
\<close>

record data_row =
  incomes_len :: "nat option"
  total_transactions :: real
  total_bills :: real
  tenure_months_row :: real
  has_recurring_savings :: real
  avg_monthly_savings :: real
  num_income_sources :: int

definition compute_data_confidence :: "data_row option \<Rightarrow> real" where
  "compute_data_confidence row =
     (case row of
        None \<Rightarrow> 0.65
      | Some row \<Rightarrow>
          let c1 = (case incomes_len row of
                      Some l \<Rightarrow> min (real l / 6) 1 | None \<Rightarrow> 0.3);
              c2 = min (total_transactions row / 150) 1;
              c3 = min (total_bills row / 12) 1;
              c4 = min (tenure_months_row row / 12) 1;
              has_savings_data = (has_recurring_savings row \<noteq> 0 \<or> avg_monthly_savings row > 0);
              c5 = (if has_savings_data then 1 else 0.4);
              c6 = min (of_int (num_income_sources row) / 3) 1;
              raw_confidence = c1 * 0.20 + c2 * 0.25 + c3 * 0.15 + c4 * 0.15 + c5 * 0.10 + c6 * 0.15
          in py_round (clip raw_confidence 0.40 0.95) 2)"

record final_score =
  final_trust_score :: real
  risk_probability_out :: real
  fs_grade :: string
  fs_grade_color :: string
  fs_confidence :: real

definition compute_final_score :: "real \<Rightarrow> real \<Rightarrow> data_row option \<Rightarrow> final_score" where
  "compute_final_score base_score risk_probability row =
     (let adjusted_100 = (base_score - MIN_SCORE) / (MAX_SCORE - MIN_SCORE) * 100;
          adjusted_100 = adjusted_100 * (1 - risk_probability);
          final = MIN_SCORE + (adjusted_100 / 100) * (MAX_SCORE - MIN_SCORE);
          final = clip final MIN_SCORE MAX_SCORE;
          (grade, color) =
            (if final \<ge> 750 then (''Excellent'', ''#22c55e'')
             else if final \<ge> 650 then (''Good'', ''#84cc16'')
             else if final \<ge> 500 then (''Fair'', ''#eab308'')
             else if final \<ge> 400 then (''Poor'', ''#f97316'')
             else (''Very Poor'', ''#ef4444''));
          confidence = compute_data_confidence row
      in \<lparr> final_trust_score = py_round final 0,
           risk_probability_out = py_round risk_probability 4,
           fs_grade = grade, fs_grade_color = color, fs_confidence = confidence \<rparr>)"

subsection \<open>Repayment schedule (\<^verbatim>\<open>generate_repayment_schedule\<close>)\<close>

record schedule_entry =
  se_month :: string
  se_emi :: real
  se_principal :: real
  se_interest :: real
  se_balance :: real

definition months :: "string list" where
  "months = [''Jan'', ''Feb'', ''Mar'', ''Apr'', ''May'', ''Jun'',
             ''Jul'', ''Aug'', ''Sep'', ''Oct'', ''Nov'', ''Dec'']"

text \<open>
  The \<^verbatim>\<open>for i in range(tenure_months)\<close> loop: \<open>i\<close> is the loop index, \<open>k\<close> the number
  of months still to emit, \<open>balance\<close> the running balance.
\<close>

fun schedule_loop ::
  "real \<Rightarrow> real \<Rightarrow> nat \<Rightarrow> int \<Rightarrow> real \<Rightarrow> nat \<Rightarrow> nat \<Rightarrow> schedule_entry list" where
  "schedule_loop emi r start_month_idx start_year balance i 0 = []"
| "schedule_loop emi r start_month_idx start_year balance i (Suc k) =
     (let interest_component = balance * r;
          principal_component = emi - interest_component;
          balance = max (balance - principal_component) 0;
          month_idx = (start_month_idx + i) mod 12;
          year = start_year + int ((start_month_idx + i) div 12)
      in \<lparr> se_month = months ! month_idx @ '' '' @ show_int year,
           se_emi = py_round emi 2,
           se_principal = py_round principal_component 2,
           se_interest = py_round interest_component 2,
           se_balance = py_round balance 2 \<rparr>
         # schedule_loop emi r start_month_idx start_year balance (Suc i) k)"

text \<open>
  The start month arrives parsed into the index of its name in \<open>months\<close> and its year;
  the default \<^verbatim>\<open>"Jan 2026"\<close> is index 0 and year 2026, which is also what the
  \<^verbatim>\<open>except\<close> branch sets for a text that does not parse.
\<close>

definition generate_repayment_schedule ::
  "real \<Rightarrow> real \<Rightarrow> int \<Rightarrow> nat \<Rightarrow> int \<Rightarrow> schedule_entry list" where
  "generate_repayment_schedule prin annual_rate tenure_months start_month_idx start_year =
     (if prin \<le> 0 \<or> tenure_months \<le> 0 then []
      else
        let emi = calculate_emi prin annual_rate tenure_months;
            r = (if annual_rate > 0 then annual_rate / (12 * 100) else 0);
            balance = prin
        in schedule_loop emi r start_month_idx start_year balance 0 (nat tenure_months))"

text \<open>
  The running balance alone: its value after \<open>k\<close> further passes through the loop body,
  before the rounding for display.
\<close>

primrec final_balance :: "real \<Rightarrow> real \<Rightarrow> real \<Rightarrow> nat \<Rightarrow> real" where
  "final_balance emi r b 0 = b"
| "final_balance emi r b (Suc k) = final_balance emi r (max (b - (emi - b * r)) 0) k"

subsection \<open>Loan catalogues (\<^verbatim>\<open>TRANSACTION_LOANS\<close>, \<^verbatim>\<open>PERSONA_LOANS\<close>)\<close>

text \<open>
  A catalogue entry with its name and the fields the engine computes with.  The other
  display fields (icon, category, description, lenders, documents, processing fee) are
  passed through unchanged by the code and are left out; \<open>ln_subsidy\<close> says whether the
  entry carries a subsidy text.  An optional key that an entry does not have is \<open>None\<close>.
  Characters outside ASCII are written as their UTF-8 bytes.
\<close>

record loan_product =
  ln_name :: string
  ln_min_score :: int
  ln_min_income :: "int option"
  ln_amount_range :: "int \<times> int"
  ln_interest_range :: "real \<times> real"
  ln_tenure_range :: "int \<times> int"
  ln_collateral :: bool
  ln_subsidy :: bool
  ln_eligibility_criteria :: "string list option"

text \<open>Dictionaries are association lists in insertion order.\<close>

definition TRANSACTION_LOANS :: "(string \<times> loan_product) list" where
  "TRANSACTION_LOANS =
    [(''personal_loan'',
      \<lparr> ln_name = ''Personal Loan'',
        ln_min_score = 550, ln_min_income = Some 10000, ln_amount_range = (25000, 500000),
        ln_interest_range = (10.5, 24), ln_tenure_range = (6, 60), ln_collateral = False,
        ln_subsidy = False, ln_eligibility_criteria = None \<rparr>),
     (''business_loan'',
      \<lparr> ln_name = ''Business Loan / Working Capital'',
        ln_min_score = 600, ln_min_income = Some 15000, ln_amount_range = (50000, 1000000),
        ln_interest_range = (12, 22), ln_tenure_range = (12, 60), ln_collateral = False,
        ln_subsidy = False, ln_eligibility_criteria = None \<rparr>),
     (''home_loan'',
      \<lparr> ln_name = ''Home Loan'',
        ln_min_score = 700, ln_min_income = Some 25000, ln_amount_range = (500000, 5000000),
        ln_interest_range = (8.5, 12), ln_tenure_range = (60, 360), ln_collateral = True,
        ln_subsidy = True, ln_eligibility_criteria = None \<rparr>),
     (''vehicle_loan'',
      \<lparr> ln_name = ''Vehicle / Auto Loan'',
        ln_min_score = 600, ln_min_income = Some 20000, ln_amount_range = (100000, 1500000),
        ln_interest_range = (9, 15), ln_tenure_range = (12, 84), ln_collateral = True,
        ln_subsidy = False, ln_eligibility_criteria = None \<rparr>),
     (''education_loan'',
      \<lparr> ln_name = ''Education Loan'',
        ln_min_score = 500, ln_min_income = Some 0, ln_amount_range = (100000, 2000000),
        ln_interest_range = (8, 14), ln_tenure_range = (60, 180), ln_collateral = False,
        ln_subsidy = True, ln_eligibility_criteria = None \<rparr>),
     (''gold_loan'',
      \<lparr> ln_name = ''Gold Loan'',
        ln_min_score = 400, ln_min_income = Some 0, ln_amount_range = (10000, 2500000),
        ln_interest_range = (7, 15), ln_tenure_range = (3, 36), ln_collateral = True,
        ln_subsidy = False, ln_eligibility_criteria = None \<rparr>),
     (''credit_card'',
      \<lparr> ln_name = ''Credit Card'',
        ln_min_score = 650, ln_min_income = Some 15000, ln_amount_range = (15000, 300000),
        ln_interest_range = (24, 42), ln_tenure_range = (0, 0), ln_collateral = False,
        ln_subsidy = False, ln_eligibility_criteria = None \<rparr>),
     (''loan_against_fd'',
      \<lparr> ln_name = ''Loan Against FD / MF'',
        ln_min_score = 400, ln_min_income = Some 0, ln_amount_range = (10000, 1000000),
        ln_interest_range = (6.5, 10), ln_tenure_range = (1, 60), ln_collateral = True,
        ln_subsidy = False, ln_eligibility_criteria = None \<rparr>),
     (''emergency_loan'',
      \<lparr> ln_name = ''Emergency / Instant Loan'',
        ln_min_score = 450, ln_min_income = Some 8000, ln_amount_range = (5000, 100000),
        ln_interest_range = (15, 36), ln_tenure_range = (1, 12), ln_collateral = False,
        ln_subsidy = False, ln_eligibility_criteria = None \<rparr>)]"

definition PERSONA_LOANS_farmer :: "(string \<times> loan_product) list" where
  "PERSONA_LOANS_farmer =
    [(''kcc'',
      \<lparr> ln_name = ''Kisan Credit Card (KCC)'',
        ln_min_score = 450, ln_min_income = None, ln_amount_range = (25000, 300000),
        ln_interest_range = (4, 7), ln_tenure_range = (12, 60), ln_collateral = False,
        ln_subsidy = True, ln_eligibility_criteria = Some [''owns_land'', ''crops_per_year''] \<rparr>),
     (''crop_loan'',
      \<lparr> ln_name = ''Crop Loan'',
        ln_min_score = 400, ln_min_income = None, ln_amount_range = (10000, 200000),
        ln_interest_range = (4, 9), ln_tenure_range = (6, 12), ln_collateral = False,
        ln_subsidy = True, ln_eligibility_criteria = Some [''owns_land''] \<rparr>),
     (''farm_equipment'',
      \<lparr> ln_name = ''Farm Equipment Loan'',
        ln_min_score = 550, ln_min_income = None, ln_amount_range = (50000, 1000000),
        ln_interest_range = (8, 12), ln_tenure_range = (24, 84), ln_collateral = True,
        ln_subsidy = True, ln_eligibility_criteria = Some [''owns_land'', ''land_acres''] \<rparr>),
     (''dairy_poultry'',
      \<lparr> ln_name = ''Dairy / Poultry / Fishery Loan'',
        ln_min_score = 500, ln_min_income = None, ln_amount_range = (25000, 500000),
        ln_interest_range = (7, 11), ln_tenure_range = (12, 60), ln_collateral = False,
        ln_subsidy = True, ln_eligibility_criteria = Some [] \<rparr>),
     (''solar_pump'',
      \<lparr> ln_name = ''Solar Pump Loan (PM-KUSUM)'',
        ln_min_score = 450, ln_min_income = None, ln_amount_range = (20000, 300000),
        ln_interest_range = (5, 8), ln_tenure_range = (12, 84), ln_collateral = False,
        ln_subsidy = True, ln_eligibility_criteria = Some [''owns_land''] \<rparr>),
     (''warehouse_receipt'',
      \<lparr> ln_name = ''Warehouse Receipt Loan'',
        ln_min_score = 500, ln_min_income = None, ln_amount_range = (10000, 500000),
        ln_interest_range = (6, 9), ln_tenure_range = (3, 12), ln_collateral = True,
        ln_subsidy = False, ln_eligibility_criteria = Some [''has_warehouse_receipt''] \<rparr>)]"

definition PERSONA_LOANS_student :: "(string \<times> loan_product) list" where
  "PERSONA_LOANS_student =
    [(''education_loan'',
      \<lparr> ln_name = ''Education Loan (Vidya Lakshmi)'',
        ln_min_score = 450, ln_min_income = None, ln_amount_range = (100000, 2000000),
        ln_interest_range = (8, 12), ln_tenure_range = (60, 180), ln_collateral = False,
        ln_subsidy = True, ln_eligibility_criteria = Some [''score_value''] \<rparr>),
     (''skill_loan'',
      \<lparr> ln_name = ''Skill Development Loan'',
        ln_min_score = 400, ln_min_income = None, ln_amount_range = (5000, 150000),
        ln_interest_range = (8, 12), ln_tenure_range = (3, 84), ln_collateral = False,
        ln_subsidy = True, ln_eligibility_criteria = Some [] \<rparr>),
     (''device_loan'',
      \<lparr> ln_name = ''Laptop / Device Loan'',
        ln_min_score = 500, ln_min_income = None, ln_amount_range = (10000, 100000),
        ln_interest_range = (12, 18), ln_tenure_range = (3, 24), ln_collateral = False,
        ln_subsidy = False, ln_eligibility_criteria = Some [] \<rparr>),
     (''startup_loan'',
      \<lparr> ln_name = ''Startup India Seed Loan'',
        ln_min_score = 600, ln_min_income = None, ln_amount_range = (100000, 500000),
        ln_interest_range = (10, 14), ln_tenure_range = (12, 60), ln_collateral = False,
        ln_subsidy = True, ln_eligibility_criteria = Some [''has_internship''] \<rparr>)]"

definition PERSONA_LOANS_street_vendor :: "(string \<times> loan_product) list" where
  "PERSONA_LOANS_street_vendor =
    [(''pm_svanidhi'',
      \<lparr> ln_name = ''PM SVANidhi (Street Vendor Loan)'',
        ln_min_score = 350, ln_min_income = None, ln_amount_range = (10000, 50000),
        ln_interest_range = (0, 7), ln_tenure_range = (12, 12), ln_collateral = False,
        ln_subsidy = True, ln_eligibility_criteria = Some [''has_license''] \<rparr>),
     (''mudra_shishu'',
      \<lparr> ln_name = ''Mudra Loan '' @ [CHR 0xE2, CHR 0x80, CHR 0x94] @ '' Shishu (up to '' @ [CHR 0xE2, CHR 0x82, CHR 0xB9] @ ''50K)'',
        ln_min_score = 400, ln_min_income = None, ln_amount_range = (10000, 50000),
        ln_interest_range = (10, 14), ln_tenure_range = (12, 36), ln_collateral = False,
        ln_subsidy = False, ln_eligibility_criteria = Some [] \<rparr>),
     (''mudra_kishore'',
      \<lparr> ln_name = ''Mudra Loan '' @ [CHR 0xE2, CHR 0x80, CHR 0x94] @ '' Kishore ('' @ [CHR 0xE2, CHR 0x82, CHR 0xB9] @ ''50K'' @ [CHR 0xE2, CHR 0x80, CHR 0x93] @ [CHR 0xE2, CHR 0x82, CHR 0xB9] @ ''5L)'',
        ln_min_score = 550, ln_min_income = None, ln_amount_range = (50000, 500000),
        ln_interest_range = (11, 16), ln_tenure_range = (12, 60), ln_collateral = False,
        ln_subsidy = False, ln_eligibility_criteria = Some [''years_in_trade''] \<rparr>),
     (''cart_equipment'',
      \<lparr> ln_name = ''Cart / Equipment Loan'',
        ln_min_score = 450, ln_min_income = None, ln_amount_range = (5000, 100000),
        ln_interest_range = (12, 18), ln_tenure_range = (6, 36), ln_collateral = False,
        ln_subsidy = False, ln_eligibility_criteria = Some [] \<rparr>),
     (''working_capital_micro'',
      \<lparr> ln_name = ''Working Capital Micro Loan'',
        ln_min_score = 400, ln_min_income = None, ln_amount_range = (5000, 75000),
        ln_interest_range = (12, 24), ln_tenure_range = (3, 12), ln_collateral = False,
        ln_subsidy = False, ln_eligibility_criteria = Some [] \<rparr>)]"

definition PERSONA_LOANS_homemaker :: "(string \<times> loan_product) list" where
  "PERSONA_LOANS_homemaker =
    [(''shg_loan'',
      \<lparr> ln_name = ''SHG Group Loan (NRLM)'',
        ln_min_score = 350, ln_min_income = None, ln_amount_range = (10000, 200000),
        ln_interest_range = (4, 12), ln_tenure_range = (12, 36), ln_collateral = False,
        ln_subsidy = True, ln_eligibility_criteria = Some [''is_shg_member''] \<rparr>),
     (''mudra_shishu_w'',
      \<lparr> ln_name = ''Mudra Loan '' @ [CHR 0xE2, CHR 0x80, CHR 0x94] @ '' Shishu (Women)'',
        ln_min_score = 400, ln_min_income = None, ln_amount_range = (10000, 50000),
        ln_interest_range = (10, 14), ln_tenure_range = (12, 36), ln_collateral = False,
        ln_subsidy = False, ln_eligibility_criteria = Some [''has_enterprise''] \<rparr>),
     (''standup_india'',
      \<lparr> ln_name = ''Stand-Up India Loan (Women)'',
        ln_min_score = 550, ln_min_income = None, ln_amount_range = (100000, 10000000),
        ln_interest_range = (8, 12), ln_tenure_range = (36, 84), ln_collateral = False,
        ln_subsidy = True, ln_eligibility_criteria = Some [''has_enterprise''] \<rparr>),
     (''micro_enterprise_w'',
      \<lparr> ln_name = ''Micro Enterprise Loan'',
        ln_min_score = 500, ln_min_income = None, ln_amount_range = (25000, 200000),
        ln_interest_range = (12, 18), ln_tenure_range = (12, 48), ln_collateral = False,
        ln_subsidy = False, ln_eligibility_criteria = Some [''has_enterprise''] \<rparr>),
     (''gold_loan_w'',
      \<lparr> ln_name = ''Gold Loan'',
        ln_min_score = 350, ln_min_income = None, ln_amount_range = (5000, 500000),
        ln_interest_range = (7, 12), ln_tenure_range = (3, 24), ln_collateral = True,
        ln_subsidy = False, ln_eligibility_criteria = Some [] \<rparr>)]"

definition PERSONA_LOANS_general_no_bank :: "(string \<times> loan_product) list" where
  "PERSONA_LOANS_general_no_bank =
    [(''mudra_shishu_g'',
      \<lparr> ln_name = ''Mudra Loan '' @ [CHR 0xE2, CHR 0x80, CHR 0x94] @ '' Shishu'',
        ln_min_score = 400, ln_min_income = None, ln_amount_range = (10000, 50000),
        ln_interest_range = (10, 14), ln_tenure_range = (12, 36), ln_collateral = False,
        ln_subsidy = False, ln_eligibility_criteria = Some [] \<rparr>),
     (''personal_micro'',
      \<lparr> ln_name = ''Personal Micro Loan'',
        ln_min_score = 450, ln_min_income = None, ln_amount_range = (5000, 50000),
        ln_interest_range = (15, 26), ln_tenure_range = (3, 12), ln_collateral = False,
        ln_subsidy = False, ln_eligibility_criteria = Some [] \<rparr>),
     (''emergency_micro'',
      \<lparr> ln_name = ''Emergency Micro Loan'',
        ln_min_score = 350, ln_min_income = None, ln_amount_range = (1000, 25000),
        ln_interest_range = (18, 30), ln_tenure_range = (1, 6), ln_collateral = False,
        ln_subsidy = False, ln_eligibility_criteria = Some [] \<rparr>),
     (''gold_loan_g'',
      \<lparr> ln_name = ''Gold Loan'',
        ln_min_score = 350, ln_min_income = None, ln_amount_range = (5000, 500000),
        ln_interest_range = (7, 12), ln_tenure_range = (3, 24), ln_collateral = True,
        ln_subsidy = False, ln_eligibility_criteria = Some [] \<rparr>),
     (''jlg_loan'',
      \<lparr> ln_name = ''Joint Liability Group (JLG) Loan'',
        ln_min_score = 400, ln_min_income = None, ln_amount_range = (10000, 100000),
        ln_interest_range = (12, 18), ln_tenure_range = (6, 24), ln_collateral = False,
        ln_subsidy = False, ln_eligibility_criteria = Some [''is_group_member''] \<rparr>)]"

definition PERSONA_LOANS :: "(string \<times> (string \<times> loan_product) list) list" where
  "PERSONA_LOANS =
    [(''farmer'', PERSONA_LOANS_farmer),
     (''student'', PERSONA_LOANS_student),
     (''street_vendor'', PERSONA_LOANS_street_vendor),
     (''homemaker'', PERSONA_LOANS_homemaker),
     (''general_no_bank'', PERSONA_LOANS_general_no_bank)]"

subsection \<open>Python values and input dictionaries\<close>

text \<open>
  The persona input dictionary maps field names to Python values: booleans, ints, floats,
  texts and lists of texts.  A failing conversion raises; the exception is a value here.
\<close>

datatype pyval = PBool bool | PInt int | PFloat real | PStr string | PList "string list"

datatype py_error = ValueError | TypeError | AttributeError | ZeroDivisionError

type_synonym pydict = "string \<rightharpoonup> pyval"

text \<open>\<^verbatim>\<open>data.get(key, default)\<close>.\<close>

definition dict_get :: "pydict \<Rightarrow> string \<Rightarrow> pyval \<Rightarrow> pyval" where
  "dict_get data key dflt = (case data key of Some v \<Rightarrow> v | None \<Rightarrow> dflt)"

text \<open>Truth value of a Python value (\<^verbatim>\<open>if val\<close>).\<close>

fun truthy :: "pyval \<Rightarrow> bool" where
  "truthy (PBool b) = b"
| "truthy (PInt i) = (i \<noteq> 0)"
| "truthy (PFloat x) = (x \<noteq> 0)"
| "truthy (PStr s) = (s \<noteq> [])"
| "truthy (PList l) = (l \<noteq> [])"

text \<open>
  Numeric texts: an optional sign, digits, and for a float an optional fraction.  Python
  accepts more (surrounding blanks, underscores, exponents, \<^verbatim>\<open>inf\<close>, \<^verbatim>\<open>nan\<close>); such
  texts are outside this model, which reports them as \<open>ValueError\<close>.
\<close>

definition is_digit :: "char \<Rightarrow> bool" where
  "is_digit c = ((48::nat) \<le> of_char c \<and> of_char c \<le> (57::nat))"

definition digits_value :: "string \<Rightarrow> nat" where
  "digits_value s = foldl (\<lambda>acc c. 10 * acc + (of_char c - 48)) 0 s"

definition parse_nat :: "string \<Rightarrow> nat option" where
  "parse_nat s = (if s \<noteq> [] \<and> list_all is_digit s then Some (digits_value s) else None)"

fun strip_sign :: "string \<Rightarrow> bool \<times> string" where
  "strip_sign [] = (False, [])"
| "strip_sign (c # cs) =
     (if c = CHR ''-'' then (True, cs) else if c = CHR ''+'' then (False, cs) else (False, c # cs))"

definition parse_int :: "string \<Rightarrow> int option" where
  "parse_int s =
     (let (neg, body) = strip_sign s
      in case parse_nat body of
           None \<Rightarrow> None
         | Some n \<Rightarrow> Some (if neg then - int n else int n))"

definition parse_float :: "string \<Rightarrow> real option" where
  "parse_float s =
     (let (neg, body) = strip_sign s;
          whole = takeWhile (\<lambda>c. c \<noteq> CHR ''.'') body;
          rest = dropWhile (\<lambda>c. c \<noteq> CHR ''.'') body;
          frac = (if rest = [] then [] else tl rest)
      in if (whole = [] \<and> frac = []) \<or> \<not> list_all is_digit whole \<or> \<not> list_all is_digit frac
         then None
         else
           let v = real (digits_value whole) + real (digits_value frac) / 10 ^ length frac
           in Some (if neg then - v else v))"

text \<open>\<^verbatim>\<open>float(v)\<close> and \<^verbatim>\<open>int(v)\<close>; \<^verbatim>\<open>int\<close> of a float truncates towards zero.\<close>

fun py_float :: "pyval \<Rightarrow> py_error + real" where
  "py_float (PBool b) = Inr (if b then 1 else 0)"
| "py_float (PInt i) = Inr (of_int i)"
| "py_float (PFloat x) = Inr x"
| "py_float (PStr s) = (case parse_float s of Some x \<Rightarrow> Inr x | None \<Rightarrow> Inl ValueError)"
| "py_float (PList l) = Inl TypeError"

fun py_int :: "pyval \<Rightarrow> py_error + int" where
  "py_int (PBool b) = Inr (if b then 1 else 0)"
| "py_int (PInt i) = Inr i"
| "py_int (PFloat x) = Inr (if 0 \<le> x then \<lfloor>x\<rfloor> else \<lceil>x\<rceil>)"
| "py_int (PStr s) = (case parse_int s of Some i \<Rightarrow> Inr i | None \<Rightarrow> Inl ValueError)"
| "py_int (PList l) = Inl TypeError"

text \<open>Sequencing of computations that may raise.\<close>

definition bind_err :: "py_error + 'a \<Rightarrow> ('a \<Rightarrow> py_error + 'b) \<Rightarrow> py_error + 'b" where
  "bind_err m f = (case m of Inl e \<Rightarrow> Inl e | Inr x \<Rightarrow> f x)"

text \<open>Small text helpers: \<^verbatim>\<open>sep.join(xs)\<close> and \<^verbatim>\<open>s.replace('_', ' ')\<close>.\<close>

fun join :: "string \<Rightarrow> string list \<Rightarrow> string" where
  "join sep [] = []"
| "join sep [x] = x"
| "join sep (x # y # ys) = x @ sep @ join sep (y # ys)"

definition replace_underscores :: "string \<Rightarrow> string" where
  "replace_underscores s = map (\<lambda>c. if c = CHR ''_'' then CHR '' '' else c) s"

subsection \<open>Persona loan eligibility and loan detail\<close>

record eligibility =
  el_eligible :: bool
  el_reasons :: "string list"
  el_criteria_met :: "string list"
  el_criteria_not_met :: "string list"

text \<open>
  \<^verbatim>\<open>val and val not in (False, 0, "", "0", "none")\<close> for \<^verbatim>\<open>val = data.get(criterion)\<close>:
  a true value is different from \<^verbatim>\<open>False\<close>, \<^verbatim>\<open>0\<close> and \<^verbatim>\<open>""\<close>, so only the texts
  \<^verbatim>\<open>"0"\<close> and \<^verbatim>\<open>"none"\<close> are excluded in addition.
\<close>

definition criterion_met :: "pydict \<Rightarrow> string \<Rightarrow> bool" where
  "criterion_met data criterion =
     (case data criterion of
        None \<Rightarrow> False
      | Some val \<Rightarrow> truthy val \<and> val \<noteq> PStr ''0'' \<and> val \<noteq> PStr ''none'')"

definition check_persona_loan_eligibility ::
  "loan_product \<Rightarrow> real \<Rightarrow> pydict \<Rightarrow> score_tier \<Rightarrow> eligibility" where
  "check_persona_loan_eligibility loan score data tier =
     (let below = (score < of_int (ln_min_score loan));
          no_loans = (max_simultaneous_loans tier = 0);
          criteria = (case ln_eligibility_criteria loan of Some cs \<Rightarrow> cs | None \<Rightarrow> []);
          criteria_met = filter (criterion_met data) criteria;
          criteria_not_met = filter (\<lambda>c. \<not> criterion_met data c) criteria;
          reasons =
            (if below
             then [''Score '' @ fmt_f0 score @ '' below minimum '' @ show_int (ln_min_score loan)]
             else [])
            @ (if no_loans then [''Score too low for any loans''] else [])
            @ (if criteria_not_met \<noteq> []
               then [''Missing data for: '' @ join '', '' (map replace_underscores criteria_not_met)]
               else [])
      in \<lparr> el_eligible = (\<not> below \<and> \<not> no_loans), el_reasons = reasons,
           el_criteria_met = criteria_met, el_criteria_not_met = criteria_not_met \<rparr>)"

record loan_detail =
  ld_key :: string
  ld_eligible :: bool
  ld_reasons :: "string list"
  ld_criteria_met :: "string list"
  ld_criteria_not_met :: "string list"
  ld_effective_rate :: real
  ld_max_loan_amount :: real
  ld_recommended_amount :: real
  ld_min_amount :: int
  ld_emi :: real
  ld_suggested_tenure :: int
  ld_tenure_range :: "int \<times> int"
  ld_total_interest :: real
  ld_interest_saved_via_subsidy :: real
  ld_collateral_required :: bool
  ld_subsidy :: bool

text \<open>\<^verbatim>\<open>_build_persona_loan_detail\<close>; the \<^verbatim>\<open>repayment\<close> argument is not read by the code.\<close>

definition build_persona_loan_detail ::
  "string \<Rightarrow> loan_product \<Rightarrow> real \<Rightarrow> real \<Rightarrow> score_tier \<Rightarrow> repayment_capacity
     \<Rightarrow> eligibility \<Rightarrow> loan_detail" where
  "build_persona_loan_detail loan_key loan score income tier repayment eligibility' =
     (let (loan_rate_low, loan_rate_high) = ln_interest_range loan;
          effective_rate =
            (if score \<ge> 700 then loan_rate_low
             else if score \<ge> 550 then loan_rate_low + (loan_rate_high - loan_rate_low) * 0.4
             else loan_rate_high);
          max_amount = of_int (snd (ln_amount_range loan));
          min_amount = fst (ln_amount_range loan);
          max_amount =
            (if income > 0 then
               let income_cap = income * max_exposure_multiplier tier
               in if income_cap > 0 \<and> income_cap < max_amount then income_cap else max_amount
             else max_amount);
          recommended = min (max_amount * 0.6) (of_int (snd (ln_amount_range loan)));
          recommended = max recommended (of_int min_amount);
          suggested_tenure = snd (ln_tenure_range loan);
          suggested_tenure =
            (if max_tenure_months tier > 0 then min suggested_tenure (max_tenure_months tier)
             else suggested_tenure);
          suggested_tenure =
            (if suggested_tenure = 0 then fst (ln_tenure_range loan) else suggested_tenure);
          emi = calculate_emi recommended effective_rate suggested_tenure;
          total_interest = calculate_total_interest recommended effective_rate suggested_tenure;
          interest_saved =
            (if ln_subsidy loan then
               let market_rate = effective_rate + 5;
                   market_interest = calculate_total_interest recommended market_rate suggested_tenure
               in max (market_interest - total_interest) 0
             else 0)
      in \<lparr> ld_key = loan_key,
           ld_eligible = el_eligible eligibility',
           ld_reasons = el_reasons eligibility',
           ld_criteria_met = el_criteria_met eligibility',
           ld_criteria_not_met = el_criteria_not_met eligibility',
           ld_effective_rate = py_round effective_rate 2,
           ld_max_loan_amount = py_round max_amount 0,
           ld_recommended_amount = py_round recommended 0,
           ld_min_amount = min_amount,
           ld_emi = emi,
           ld_suggested_tenure = suggested_tenure,
           ld_tenure_range = ln_tenure_range loan,
           ld_total_interest = total_interest,
           ld_interest_saved_via_subsidy = py_round interest_saved 0,
           ld_collateral_required = ln_collateral loan,
           ld_subsidy = ln_subsidy loan \<rparr>)"

subsection \<open>Loan comparison (\<^verbatim>\<open>compare_loans\<close>)\<close>

text \<open>
  The loop that scores the eligible loans.  Each result is the loan together with its
  \<^verbatim>\<open>_composite_score\<close>.
\<close>

fun score_loans :: "loan_detail list \<Rightarrow> (loan_detail \<times> real) list" where
  "score_loans [] = []"
| "score_loans (loan # loans) =
     (if \<not> ld_eligible loan then score_loans loans
      else
        let rate_score = max 0 (30 - ld_effective_rate loan) / 30;
            amount_score = min (ld_max_loan_amount loan / 500000) 1;
            subsidy_score = (if ld_subsidy loan then 1 else 0);
            collateral_score = (if ld_collateral_required loan then 0 else 0.5);
            composite = rate_score * 0.35 + amount_score * 0.30 + subsidy_score * 0.20
                        + collateral_score * 0.15
        in (loan, composite) # score_loans loans)"

text \<open>
  \<^verbatim>\<open>scored.sort(key=..., reverse=True)\<close> is a stable sort into descending order: the
  stable ascending sort on the negated key.  \<^verbatim>\<open>scored[:3]\<close> keeps the first three.
\<close>

definition compare_loans :: "loan_detail list \<Rightarrow> (loan_detail \<times> real) list" where
  "compare_loans loans =
     (if loans = [] then []
      else
        let scored = score_loans loans;
            scored = sort_key (\<lambda>x. - snd x) scored
        in take 3 scored)"

subsection \<open>Persona criteria scorers (\<^verbatim>\<open>alternative_profiles.py\<close>)\<close>

text \<open>
  A scorer returns its score and label; the \<^verbatim>\<open>detail\<close> text is display only and is
  left out, but where formatting it can raise (\<^verbatim>\<open>level.upper()\<close> on a value that is
  not a text) the exception is kept.  Reads of the input dictionary follow the order of
  the source, so that the first failing conversion decides the exception.
\<close>

record criterion_result =
  cr_score :: real
  cr_label :: string

definition get_float :: "pydict \<Rightarrow> string \<Rightarrow> pyval \<Rightarrow> py_error + real" where
  "get_float data key dflt = py_float (dict_get data key dflt)"

definition get_int :: "pydict \<Rightarrow> string \<Rightarrow> pyval \<Rightarrow> py_error + int" where
  "get_int data key dflt = py_int (dict_get data key dflt)"

definition get_flag :: "pydict \<Rightarrow> string \<Rightarrow> bool" where
  "get_flag data key = truthy (dict_get data key (PBool False))"

text \<open>
  \<^verbatim>\<open>table.get(v, default)\<close> for a table with text keys: a list is unhashable and raises
  \<open>TypeError\<close>; a number or boolean is not among the keys.
\<close>

fun table_get :: "(string \<times> real) list \<Rightarrow> pyval \<Rightarrow> real \<Rightarrow> py_error + real" where
  "table_get tbl (PStr s) dflt = Inr (case map_of tbl s of Some x \<Rightarrow> x | None \<Rightarrow> dflt)"
| "table_get tbl (PList l) dflt = Inl TypeError"
| "table_get tbl v dflt = Inr dflt"

text \<open>A summand of \<^verbatim>\<open>sum([...])\<close>: numbers and booleans add, texts and lists raise.\<close>

fun py_num :: "pyval \<Rightarrow> py_error + real" where
  "py_num (PBool b) = Inr (if b then 1 else 0)"
| "py_num (PInt i) = Inr (of_int i)"
| "py_num (PFloat x) = Inr x"
| "py_num (PStr s) = Inl TypeError"
| "py_num (PList l) = Inl TypeError"

text \<open>\<^verbatim>\<open>len(v)\<close>.\<close>

fun py_len :: "pyval \<Rightarrow> py_error + nat" where
  "py_len (PStr s) = Inr (length s)"
| "py_len (PList l) = Inr (length l)"
| "py_len v = Inl TypeError"

text \<open>The common last step: \<^verbatim>\<open>round(float(np.clip(score, 0, 1)), 4)\<close>.\<close>

definition scored :: "real \<Rightarrow> string \<Rightarrow> py_error + criterion_result" where
  "scored score label = Inr \<lparr> cr_score = py_round (clip score 0 1) 4, cr_label = label \<rparr>"

definition score_land_asset :: "pydict \<Rightarrow> py_error + criterion_result" where
  "score_land_asset data =
     (let owns = get_flag data ''owns_land''
      in bind_err (get_float data ''land_acres'' (PInt 0)) (\<lambda>acres.
         bind_err (get_int data ''years_on_land'' (PInt 0)) (\<lambda>years.
           let ownership_score = (if owns then 0.6 else 0.3);
               area_score = min (acres / 5.0) 1;
               tenure_score = min (of_int years / 10.0) 1;
               score = ownership_score * 0.40 + area_score * 0.30 + tenure_score * 0.30
           in scored score ''Land / Asset Ownership'')))"

definition score_crop_consistency :: "pydict \<Rightarrow> py_error + criterion_result" where
  "score_crop_consistency data =
     bind_err (get_int data ''seasons_active'' (PInt 0)) (\<lambda>seasons_active.
     bind_err (get_int data ''crops_per_year'' (PInt 0)) (\<lambda>crops_per_year.
       let seasons = min (of_int seasons_active / 6) 1;
           crops = min (of_int crops_per_year / 3) 1;
           trend = dict_get data ''yield_trend'' (PStr ''stable'')
       in bind_err (table_get [(''up'', 1.0), (''stable'', 0.7), (''down'', 0.3)] trend 0.5)
            (\<lambda>trend_score.
              let score = seasons * 0.35 + crops * 0.30 + trend_score * 0.35
              in scored score ''Crop / Yield Consistency'')))"

definition score_subsidy_linkage :: "pydict \<Rightarrow> py_error + criterion_result" where
  "score_subsidy_linkage data =
     (let schemes = [get_flag data ''has_pm_kisan'', get_flag data ''has_crop_insurance'',
                     get_flag data ''has_soil_health_card'', get_flag data ''kcc_holder''];
          linked = length (filter (\<lambda>s. s) schemes);
          score = min (real linked / 3) 1
      in scored score ''Government Subsidy Linkage'')"

definition score_market_engagement :: "pydict \<Rightarrow> py_error + criterion_result" where
  "score_market_engagement data =
     (let mandi = (if get_flag data ''sells_at_mandi'' then 0.3 else 0);
          warehouse = (if get_flag data ''has_warehouse_receipt'' then 0.25 else 0);
          enam = (if get_flag data ''uses_enam'' then 0.2 else 0)
      in bind_err (get_int data ''avg_trips_per_month'' (PInt 0)) (\<lambda>trips_per_month.
           let trips = min (of_int trips_per_month / 4) 1 * 0.25;
               score = mandi + warehouse + enam + trips
           in scored score ''Market Engagement''))"

definition score_academic_performance :: "pydict \<Rightarrow> py_error + criterion_result" where
  "score_academic_performance data =
     (let stype = dict_get data ''score_type'' (PStr ''percentage'')
      in bind_err (get_float data ''score_value'' (PInt 0)) (\<lambda>val.
           let normalized = (if stype = PStr ''cgpa'' then min (val / 10.0) 1
                             else min (val / 100.0) 1)
           in bind_err (get_int data ''backlog_count'' (PInt 0)) (\<lambda>backlogs.
                let backlog_penalty = min (of_int backlogs * 0.1) 0.4;
                    level = dict_get data ''education_level'' (PStr ''school'')
                in bind_err (table_get [(''school'', 0.0), (''ug'', 0.05), (''pg'', 0.10)] level 0.0)
                     (\<lambda>level_bonus.
                       let score = normalized - backlog_penalty + level_bonus
                       in (case level of
                             PStr s \<Rightarrow> scored score ''Academic Performance''
                           | _ \<Rightarrow> Inl AttributeError)))))"

definition score_scholarship_history :: "pydict \<Rightarrow> py_error + criterion_result" where
  "score_scholarship_history data =
     bind_err (get_int data ''scholarships_received'' (PInt 0)) (\<lambda>count.
     bind_err (get_float data ''total_scholarship_value'' (PInt 0)) (\<lambda>val.
       let merit = get_flag data ''merit_based'';
           count_score = min (of_int count / 3) 1;
           value_score = min (val / 50000) 1;
           merit_bonus = (if merit then 0.15 else 0);
           score = count_score * 0.40 + value_score * 0.45 + merit_bonus
       in scored score ''Scholarship History''))"

definition score_skill_certifications :: "pydict \<Rightarrow> py_error + criterion_result" where
  "score_skill_certifications data =
     bind_err (get_int data ''cert_count'' (PInt 0)) (\<lambda>count.
       let govt = get_flag data ''has_govt_certification'';
           platforms = dict_get data ''platform_certs'' (PList []);
           count_score = min (of_int count / 5) 1;
           govt_bonus = (if govt then 0.20 else 0)
       in bind_err (py_len platforms) (\<lambda>n_platforms.
            let platform_score = min (real n_platforms / 3) 1 * 0.3;
                score = count_score * 0.50 + platform_score + govt_bonus
            in scored score ''Skill Certifications''))"

definition score_attendance_discipline :: "pydict \<Rightarrow> py_error + criterion_result" where
  "score_attendance_discipline data =
     bind_err (get_float data ''attendance_pct'' (PInt 0)) (\<lambda>pct.
       let score = min (pct / 90) 1
       in scored score ''Attendance Discipline'')"

definition score_part_time_income :: "pydict \<Rightarrow> py_error + criterion_result" where
  "score_part_time_income data =
     (if \<not> get_flag data ''has_part_time''
      then Inr \<lparr> cr_score = 0.30, cr_label = ''Part-time / Freelance Income'' \<rparr>
      else
        bind_err (get_float data ''monthly_earnings'' (PInt 0)) (\<lambda>earnings.
        bind_err (get_int data ''months_active'' (PInt 0)) (\<lambda>months.
          let earn_score = min (earnings / 10000) 1;
              consistency = min (of_int months / 6) 1;
              score = earn_score * 0.50 + consistency * 0.50
          in scored score ''Part-time / Freelance Income'')))"

text \<open>The tier table of \<^verbatim>\<open>score_future_potential\<close> has int keys.\<close>

definition score_future_potential :: "pydict \<Rightarrow> py_error + criterion_result" where
  "score_future_potential data =
     bind_err (get_int data ''institution_tier'' (PInt 4)) (\<lambda>tier.
       let tier_score = (if tier = 1 then 1.0 else if tier = 2 then 0.75
                         else if tier = 3 then 0.50 else if tier = 4 then 0.30 else 0.30);
           demand = dict_get data ''branch_demand'' (PStr ''medium'')
       in bind_err (table_get [(''high'', 1.0), (''medium'', 0.6), (''low'', 0.3)] demand 0.5)
            (\<lambda>demand_score.
              let internship_bonus = (if get_flag data ''has_internship'' then 0.15 else 0);
                  score = tier_score * 0.45 + demand_score * 0.40 + internship_bonus
              in scored score ''Future Earning Potential''))"

definition score_daily_income_consistency :: "pydict \<Rightarrow> py_error + criterion_result" where
  "score_daily_income_consistency data =
     bind_err (get_float data ''avg_daily_income'' (PInt 0)) (\<lambda>daily.
     bind_err (get_int data ''working_days_per_month'' (PInt 0)) (\<lambda>days.
       let variation = dict_get data ''seasonal_variation'' (PStr ''medium'');
           income_score = min (daily * of_int days / 15000) 1;
           day_consistency = min (of_int days / 26) 1
       in bind_err (table_get [(''low'', 1.0), (''medium'', 0.6), (''high'', 0.3)] variation 0.5)
            (\<lambda>stability.
              let score = income_score * 0.35 + day_consistency * 0.35 + stability * 0.30
              in scored score ''Daily Income Consistency'')))"

definition score_rental_discipline :: "pydict \<Rightarrow> py_error + criterion_result" where
  "score_rental_discipline data =
     (if \<not> get_flag data ''pays_rent''
      then Inr \<lparr> cr_score = 0.40, cr_label = ''Rental Payment Discipline'' \<rparr>
      else
        bind_err (get_float data ''rent_amount'' (PInt 0)) (\<lambda>rent.
        bind_err (get_float data ''on_time_pct'' (PInt 0)) (\<lambda>on_time_pct.
        bind_err (get_int data ''months_of_history'' (PInt 0)) (\<lambda>months_of_history.
          let on_time = on_time_pct / 100;
              history = min (of_int months_of_history / 12) 1;
              affordability = min (rent / 5000) 1 * 0.15;
              discipline = on_time * 0.55;
              track_record = history * 0.30;
              score = affordability + discipline + track_record
          in scored score ''Rental Payment Discipline''))))"

definition score_utility_discipline :: "pydict \<Rightarrow> py_error + criterion_result" where
  "score_utility_discipline data =
     bind_err (get_int data ''bills_per_year'' (PInt 0)) (\<lambda>bills_per_year.
     bind_err (get_float data ''on_time_pct'' (PInt 80)) (\<lambda>on_time_pct.
     bind_err (py_num (dict_get data ''has_electricity'' (PBool False))) (\<lambda>s1.
     bind_err (py_num (dict_get data ''has_water'' (PBool False))) (\<lambda>s2.
     bind_err (py_num (dict_get data ''has_gas'' (PBool False))) (\<lambda>s3.
       let bills = min (of_int bills_per_year / 12) 1;
           on_time = on_time_pct / 100;
           services = s1 + s2 + s3;
           service_score = min (services / 2) 1;
           score = bills * 0.30 + on_time * 0.45 + service_score * 0.25
       in scored score ''Utility Bill Discipline'')))))"

definition score_savings_habit :: "pydict \<Rightarrow> py_error + criterion_result" where
  "score_savings_habit data =
     (let method = dict_get data ''savings_method'' (PStr ''none'')
      in bind_err (get_float data ''monthly_savings'' (PInt 0)) (\<lambda>monthly.
         bind_err (get_int data ''months_saving'' (PInt 0)) (\<lambda>months.
           let shg = get_flag data ''is_shg_member''
           in bind_err (table_get [(''shg'', 0.9), (''chit_fund'', 0.8), (''post_office'', 0.85),
                                   (''cash_at_home'', 0.5), (''gold'', 0.6), (''bank'', 0.9),
                                   (''none'', 0.1)] method 0.3)
                (\<lambda>method_score.
                  let amount_score = min (monthly / 3000) 1;
                      consistency = min (of_int months / 12) 1;
                      shg_bonus = (if shg then 0.10 else 0);
                      score = method_score * 0.30 + amount_score * 0.30 + consistency * 0.30
                              + shg_bonus
                  in scored score ''Savings Discipline''))))"

definition score_community_trust :: "pydict \<Rightarrow> py_error + criterion_result" where
  "score_community_trust data =
     bind_err (get_int data ''references_count'' (PInt 0)) (\<lambda>references_count.
       let refs = min (of_int references_count / 3) 1;
           grp = get_flag data ''is_group_member''
       in bind_err (get_int data ''years_in_community'' (PInt 0)) (\<lambda>years_in_community.
            let years = min (of_int years_in_community / 5) 1;
                biz_ref = get_flag data ''has_local_business_reference'';
                group_score = (if grp then 0.25 else 0);
                biz_bonus = (if biz_ref then 0.10 else 0);
                score = refs * 0.35 + group_score + years * 0.30 + biz_bonus
            in scored score ''Community Trust Network''))"

definition score_mobile_behaviour :: "pydict \<Rightarrow> py_error + criterion_result" where
  "score_mobile_behaviour data =
     (let freq = dict_get data ''recharge_frequency'' (PStr ''irregular'')
      in bind_err (table_get [(''daily'', 0.5), (''weekly'', 0.7), (''monthly'', 0.9),
                              (''irregular'', 0.3)] freq 0.3)
           (\<lambda>freq_score.
             let smartphone = (if get_flag data ''has_smartphone'' then 0.20 else 0);
                 upi = (if get_flag data ''uses_upi_basic'' then 0.15 else 0)
             in bind_err (get_float data ''avg_monthly_recharge'' (PInt 0)) (\<lambda>avg_recharge.
                  let recharge = min (avg_recharge / 500) 1 * 0.25;
                      score = freq_score * 0.40 + smartphone + upi + recharge
                  in scored score ''Mobile Behaviour & Digital Footprint'')))"

definition score_years_in_trade :: "pydict \<Rightarrow> py_error + criterion_result" where
  "score_years_in_trade data =
     bind_err (get_int data ''years_in_trade'' (PInt 0)) (\<lambda>years.
       let same_loc = get_flag data ''same_location'';
           license = get_flag data ''has_license'';
           year_score = min (of_int years / 10) 1;
           loc_bonus = (if same_loc then 0.15 else 0);
           lic_bonus = (if license then 0.10 else 0);
           score = year_score * 0.75 + loc_bonus + lic_bonus
       in scored score ''Years in Trade'')"

definition score_household_budgeting :: "pydict \<Rightarrow> py_error + criterion_result" where
  "score_household_budgeting data =
     bind_err (get_float data ''household_income'' (PInt 0)) (\<lambda>income.
     bind_err (get_float data ''household_expenses'' (PInt 0)) (\<lambda>expenses.
       let manages = get_flag data ''manages_budget''
       in bind_err (get_int data ''dependents'' (PInt 0)) (\<lambda>dependents.
            let ratio_score = (if income > 0 then clip ((income - expenses) / income) 0 1
                               else 0.2);
                manage_bonus = (if manages then 0.20 else 0);
                dep_efficiency = (if manages then min (of_int dependents / 5) 1 * 0.15 else 0);
                score = ratio_score * 0.65 + manage_bonus + dep_efficiency
            in scored score ''Household Budget Management'')))"

definition score_micro_enterprise :: "pydict \<Rightarrow> py_error + criterion_result" where
  "score_micro_enterprise data =
     (if \<not> get_flag data ''has_enterprise''
      then Inr \<lparr> cr_score = 0.25, cr_label = ''Micro Enterprise'' \<rparr>
      else
        bind_err (get_float data ''monthly_revenue'' (PInt 0)) (\<lambda>revenue.
        bind_err (get_int data ''months_active'' (PInt 0)) (\<lambda>months.
          let rev_score = min (revenue / 10000) 1;
              consistency = min (of_int months / 12) 1;
              score = rev_score * 0.50 + consistency * 0.40 + 0.10
          in scored score ''Micro Enterprise'')))"

definition score_id_verification :: "pydict \<Rightarrow> py_error + criterion_result" where
  "score_id_verification data =
     (let ids = [get_flag data ''has_aadhaar'', get_flag data ''has_pan'',
                 get_flag data ''has_voter_id'', get_flag data ''has_ration_card''];
          count = length (filter (\<lambda>v. v) ids);
          aadhaar_bonus = (if get_flag data ''has_aadhaar'' then 0.20 else 0);
          base = min (real count / 3) 1 * 0.80;
          score = base + aadhaar_bonus
      in scored score ''Identity Verification'')"

definition score_psychometric :: "pydict \<Rightarrow> py_error + criterion_result" where
  "score_psychometric data =
     bind_err (get_int data ''q1_financial_planning'' (PInt 3)) (\<lambda>q1.
     bind_err (get_int data ''q2_risk_awareness'' (PInt 3)) (\<lambda>q2.
     bind_err (get_int data ''q3_goal_orientation'' (PInt 3)) (\<lambda>q3.
     bind_err (get_int data ''q4_repayment_intent'' (PInt 3)) (\<lambda>q4.
     bind_err (get_int data ''q5_responsibility'' (PInt 3)) (\<lambda>q5.
       let avg = of_int (q1 + q2 + q3 + q4 + q5) / 5;
           score = (avg - 1) / 4
       in scored score ''Psychometric Assessment'')))))"

subsection \<open>Personas, registry and \<^verbatim>\<open>compute_persona_score\<close>\<close>

text \<open>
  \<^verbatim>\<open>PERSONAS\<close> with the criteria weights of each persona, in insertion order (the label
  and description are display texts).
\<close>

definition PERSONAS :: "(string \<times> (string \<times> real) list) list" where
  "PERSONAS =
    [
     (''farmer'',
      [(''land_asset'', 0.2),
       (''crop_consistency'', 0.2),
       (''subsidy_linkage'', 0.15),
       (''market_engagement'', 0.15),
       (''community_trust'', 0.1),
       (''utility_discipline'', 0.1),
       (''mobile_behaviour'', 0.1)]),
     (''student'',
      [(''academic_performance'', 0.25),
       (''scholarship_history'', 0.15),
       (''skill_certifications'', 0.15),
       (''attendance_discipline'', 0.1),
       (''part_time_income'', 0.1),
       (''community_trust'', 0.1),
       (''mobile_behaviour'', 0.1),
       (''future_potential'', 0.05)]),
     (''street_vendor'',
      [(''daily_income_consistency'', 0.2),
       (''rental_discipline'', 0.15),
       (''utility_discipline'', 0.15),
       (''savings_habit'', 0.15),
       (''community_trust'', 0.15),
       (''mobile_behaviour'', 0.1),
       (''years_in_trade'', 0.1)]),
     (''homemaker'',
      [(''household_budgeting'', 0.2),
       (''savings_habit'', 0.2),
       (''community_trust'', 0.15),
       (''utility_discipline'', 0.15),
       (''micro_enterprise'', 0.1),
       (''mobile_behaviour'', 0.1),
       (''skill_certifications'', 0.1)]),
     (''general_no_bank'',
      [(''mobile_behaviour'', 0.2),
       (''utility_discipline'', 0.2),
       (''rental_discipline'', 0.15),
       (''community_trust'', 0.15),
       (''savings_habit'', 0.15),
       (''id_verification'', 0.1),
       (''psychometric'', 0.05)])]"

definition CRITERIA_REGISTRY :: "(string \<times> (pydict \<Rightarrow> py_error + criterion_result)) list" where
  "CRITERIA_REGISTRY =
    [(''land_asset'', score_land_asset),
     (''crop_consistency'', score_crop_consistency),
     (''subsidy_linkage'', score_subsidy_linkage),
     (''market_engagement'', score_market_engagement),
     (''academic_performance'', score_academic_performance),
     (''scholarship_history'', score_scholarship_history),
     (''skill_certifications'', score_skill_certifications),
     (''attendance_discipline'', score_attendance_discipline),
     (''part_time_income'', score_part_time_income),
     (''future_potential'', score_future_potential),
     (''daily_income_consistency'', score_daily_income_consistency),
     (''rental_discipline'', score_rental_discipline),
     (''utility_discipline'', score_utility_discipline),
     (''savings_habit'', score_savings_habit),
     (''community_trust'', score_community_trust),
     (''mobile_behaviour'', score_mobile_behaviour),
     (''years_in_trade'', score_years_in_trade),
     (''household_budgeting'', score_household_budgeting),
     (''micro_enterprise'', score_micro_enterprise),
     (''id_verification'', score_id_verification),
     (''psychometric'', score_psychometric)]"

text \<open>
  The state of the scoring loop: the criteria results so far, the weighted total, the
  total weight and the number of criteria with a score above 0.20.
\<close>

record score_acc =
  criteria_results :: "(string \<times> criterion_result) list"
  weighted_total :: real
  total_weight :: real
  filled_count :: nat

fun score_criteria ::
  "pydict \<Rightarrow> (string \<times> real) list \<Rightarrow> score_acc \<Rightarrow> py_error + score_acc" where
  "score_criteria data [] acc = Inr acc"
| "score_criteria data ((criterion, weight) # rest) acc =
     (case map_of CRITERIA_REGISTRY criterion of
        None \<Rightarrow> score_criteria data rest acc
      | Some scorer \<Rightarrow>
          bind_err (scorer data) (\<lambda>result.
            score_criteria data rest
              \<lparr> criteria_results = criteria_results acc @ [(criterion, result)],
                weighted_total = weighted_total acc + cr_score result * weight,
                total_weight = total_weight acc + weight,
                filled_count = (if cr_score result > 0.20 then filled_count acc + 1
                                else filled_count acc) \<rparr>))"

record persona_score =
  ps_persona :: string
  ps_base_score_100 :: real
  ps_trust_score :: real
  ps_grade :: string
  ps_grade_color :: string
  ps_confidence :: real
  ps_criteria_breakdown :: "(string \<times> criterion_result) list"
  ps_criteria_count :: nat
  ps_filled_count :: nat

text \<open>
  An unknown persona raises \<open>ValueError\<close>.  The weights of every persona are non-empty,
  so the division by their number cannot fail.
\<close>

definition compute_persona_score :: "string \<Rightarrow> pydict \<Rightarrow> py_error + persona_score" where
  "compute_persona_score persona data =
     (case map_of PERSONAS persona of
        None \<Rightarrow> Inl ValueError
      | Some weights \<Rightarrow>
          bind_err (score_criteria data weights
                      \<lparr> criteria_results = [], weighted_total = 0, total_weight = 0,
                        filled_count = 0 \<rparr>) (\<lambda>acc.
            let base_100 = (if total_weight acc > 0
                            then (weighted_total acc / total_weight acc) * 100 else 30);
                trust_score = 300 + (base_100 / 100) * (900 - 300);
                trust_score = clip trust_score 300 900;
                total_criteria = length weights
            in if total_criteria = 0 then Inl ZeroDivisionError
               else
                 let confidence =
                       py_round (clip (real (filled_count acc) / real total_criteria) 0.30 0.95) 2;
                     (grade, color) =
                       (if trust_score \<ge> 750 then (''Excellent'', ''#22c55e'')
                        else if trust_score \<ge> 650 then (''Good'', ''#84cc16'')
                        else if trust_score \<ge> 500 then (''Fair'', ''#eab308'')
                        else if trust_score \<ge> 400 then (''Poor'', ''#f97316'')
                        else (''Very Poor'', ''#ef4444''))
                 in Inr \<lparr> ps_persona = persona,
                          ps_base_score_100 = py_round base_100 2,
                          ps_trust_score = py_round trust_score 0,
                          ps_grade = grade, ps_grade_color = color,
                          ps_confidence = confidence,
                          ps_criteria_breakdown = criteria_results acc,
                          ps_criteria_count = total_criteria,
                          ps_filled_count = filled_count acc \<rparr>))"

subsection \<open>Sample loan details\<close>

text \<open>
  Loan details with the fields \<^verbatim>\<open>compare_loans\<close> reads set as given and the others
  at fixed values, for evaluating the ranking on concrete lists.
\<close>

definition sample_detail :: "string \<Rightarrow> bool \<Rightarrow> real \<Rightarrow> real \<Rightarrow> bool \<Rightarrow> bool \<Rightarrow> loan_detail" where
  "sample_detail k eligible' rate amount subsidy collateral =
     \<lparr> ld_key = k, ld_eligible = eligible', ld_reasons = [], ld_criteria_met = [],
       ld_criteria_not_met = [], ld_effective_rate = rate, ld_max_loan_amount = amount,
       ld_recommended_amount = amount, ld_min_amount = 0, ld_emi = 0,
       ld_suggested_tenure = 12, ld_tenure_range = (12, 12), ld_total_interest = 0,
       ld_interest_saved_via_subsidy = 0, ld_collateral_required = collateral,
       ld_subsidy = subsidy \<rparr>"

definition sample_loans :: "loan_detail list" where
  "sample_loans =
     [sample_detail ''gold_loan'' True 9 400000 False True,
      sample_detail ''credit_card'' False 24 300000 False False,
      sample_detail ''personal_loan'' True 12 250000 False False,
      sample_detail ''education_loan'' True 9 500000 True False,
      sample_detail ''emergency_loan'' True 15 100000 False False]"

subsection \<open>More text helpers\<close>

definition em_dash :: string where
  "em_dash = [CHR 0xE2, CHR 0x80, CHR 0x94]"

definition rupee :: string where
  "rupee = [CHR 0xE2, CHR 0x82, CHR 0xB9]"

text \<open>Thousands separators of the \<^verbatim>\<open>,\<close> format option, on a digit string.\<close>

fun group3 :: "string \<Rightarrow> string" where
  "group3 (a # b # c # d # rest) = a # b # c # CHR '','' # group3 (d # rest)"
| "group3 xs = xs"

definition commas :: "string \<Rightarrow> string" where
  "commas digits = rev (group3 (rev digits))"

text \<open>\<^verbatim>\<open>f"{x:,.0f}"\<close> for a float and \<^verbatim>\<open>f"{n:,}"\<close> for an int.\<close>

definition fmt_f0_commas :: "real \<Rightarrow> string" where
  "fmt_f0_commas x = (if x < 0 then ''-'' else '''') @ commas (show_nat (nat \<bar>round_half_even x\<bar>))"

definition fmt_int_commas :: "int \<Rightarrow> string" where
  "fmt_int_commas i = (if i < 0 then ''-'' else '''') @ commas (show_nat (nat \<bar>i\<bar>))"

text \<open>
  \<^verbatim>\<open>str(x)\<close> for a float that is a whole number of moderate size, such as a rounded
  amount: the digits followed by \<^verbatim>\<open>.0\<close>.
\<close>

definition str_whole_float :: "real \<Rightarrow> string" where
  "str_whole_float x = show_int (round_half_even x) @ ''.0''"

text \<open>ASCII letter case, \<^verbatim>\<open>s.lower()\<close> and \<^verbatim>\<open>s.title()\<close>.\<close>

definition is_upper :: "char \<Rightarrow> bool" where
  "is_upper c = ((65::nat) \<le> of_char c \<and> of_char c \<le> (90::nat))"

definition is_lower :: "char \<Rightarrow> bool" where
  "is_lower c = ((97::nat) \<le> of_char c \<and> of_char c \<le> (122::nat))"

definition to_lower :: "char \<Rightarrow> char" where
  "to_lower c = (if is_upper c then char_of (of_char c + (32::nat)) else c)"

definition to_upper :: "char \<Rightarrow> char" where
  "to_upper c = (if is_lower c then char_of (of_char c - (32::nat)) else c)"

definition lower :: "string \<Rightarrow> string" where
  "lower s = map to_lower s"

fun title_from :: "bool \<Rightarrow> string \<Rightarrow> string" where
  "title_from prev_cased [] = []"
| "title_from prev_cased (c # cs) =
     (if is_upper c \<or> is_lower c
      then (if prev_cased then to_lower c else to_upper c) # title_from True cs
      else c # title_from False cs)"

definition title :: "string \<Rightarrow> string" where
  "title s = title_from False s"

text \<open>\<^verbatim>\<open>needle in text\<close> for two texts.\<close>

fun starts_with :: "string \<Rightarrow> string \<Rightarrow> bool" where
  "starts_with [] s = True"
| "starts_with (n # ns) [] = False"
| "starts_with (n # ns) (c # cs) = (n = c \<and> starts_with ns cs)"

fun contains :: "string \<Rightarrow> string \<Rightarrow> bool" where
  "contains needle [] = (needle = [])"
| "contains needle (c # cs) = (starts_with needle (c # cs) \<or> contains needle cs)"

subsection \<open>Income estimate (\<^verbatim>\<open>_estimate_income_from_persona\<close>)\<close>

definition estimate_income_from_persona :: "string \<Rightarrow> pydict \<Rightarrow> py_error + real" where
  "estimate_income_from_persona persona data =
     (if persona = ''farmer'' then
        bind_err (get_float data ''land_acres'' (PInt 2)) (\<lambda>acres.
        bind_err (get_int data ''crops_per_year'' (PInt 2)) (\<lambda>seasons.
          Inr (acres * 18000 * of_int seasons / 12)))
      else if persona = ''student'' then
        bind_err (get_float data ''monthly_earnings'' (PInt 0)) (\<lambda>part_time.
        bind_err (get_float data ''total_scholarship_value'' (PInt 0)) (\<lambda>scholarship_value.
          let scholarship = scholarship_value / 12
          in Inr (max (part_time + scholarship) 5000)))
      else if persona = ''street_vendor'' then
        bind_err (get_float data ''avg_daily_income'' (PInt 500)) (\<lambda>daily.
        bind_err (get_int data ''working_days_per_month'' (PInt 25)) (\<lambda>days.
          Inr (daily * of_int days)))
      else if persona = ''homemaker'' then
        bind_err (get_float data ''household_income'' (PInt 15000)) (\<lambda>hh_income.
        bind_err (get_float data ''monthly_revenue'' (PInt 0)) (\<lambda>enterprise_rev.
          Inr (hh_income + enterprise_rev)))
      else if persona = ''general_no_bank'' then
        bind_err (get_float data ''rent_amount'' (PInt 2000)) (\<lambda>rent.
          Inr (max (rent * 3.5) 8000))
      else Inr 10000)"

subsection \<open>Credit improvement path\<close>

text \<open>
  \<^verbatim>\<open>_get_score_improvement_actions\<close>: the advice texts for the score bucket, with the
  "only n points away" line in front when the gap is at most 30.
\<close>

definition get_score_improvement_actions :: "real \<Rightarrow> real \<Rightarrow> string list" where
  "get_score_improvement_actions score gap =
     (let actions =
            (if score < 450 then
               [''Start regular mobile recharges (monthly plans)'',
                ''Pay utility bills on time for 3+ months'',
                ''Get Aadhaar and at least one more government ID'',
                ''Join a Self-Help Group (SHG) or community group'']
             else if score < 600 then
               [''Maintain 6+ months of consistent income records'',
                ''Build a savings habit '' @ em_dash @ '' even '' @ rupee @ ''500/month helps'',
                ''Pay all utility bills within due date'',
                ''Get references from community members or employers'']
             else if score < 750 then
               [''Maintain transaction consistency (avoid long gaps)'',
                ''Reduce expense-to-income ratio below 60%'',
                ''Build recurring savings (SIP, RD, or SHG deposits)'',
                ''Establish 12+ month positive payment history'']
             else [])
      in if gap \<le> 30
         then (''You're only '' @ fmt_f0 gap @ '' points away '' @ em_dash
                 @ '' focus on consistency!'') # actions
         else actions)"

text \<open>
  An item of the improvement path.  A score upgrade carries its title, the gap rounded,
  the current and target score, the key of the next tier (from which the code formats
  the benefit text) and the actions; a financial-health item carries the risk flag and
  the three fixed actions; the maintenance item is fixed.
\<close>

datatype improvement =
    Score_upgrade string real real int string "string list"
  | Financial_health string "string list"
  | Maintenance string "string list"

definition tier_upgrades :: "(string \<times> (string \<times> int \<times> string)) list" where
  "tier_upgrades =
     [(''very_poor'', (''poor'', 400, ''Micro Loans'')),
      (''poor'', (''fair'', 500, ''Standard Micro Loans'')),
      (''fair'', (''good'', 650, ''Personal & Business Loans'')),
      (''good'', (''excellent'', 750, ''Premium Loans & Credit Cards''))]"

definition get_credit_improvement_path ::
  "real \<Rightarrow> score_tier \<Rightarrow> repayment_capacity \<Rightarrow> improvement list" where
  "get_credit_improvement_path score tier repayment =
     (let current_tier_key = tier_key tier;
          upgrade =
            (case map_of tier_upgrades current_tier_key of
               None \<Rightarrow> []
             | Some (next_key, target_score, unlocks) \<Rightarrow>
                 let gap = of_int target_score - score
                 in [Score_upgrade
                       (''Reach '' @ show_int target_score @ '' to unlock '' @ unlocks)
                       (py_round gap 0) score target_score next_key
                       (get_score_improvement_actions score gap)]);
          health =
            map (\<lambda>flag. Financial_health flag
                   [''Reduce existing EMI burden by prepaying high-interest loans'',
                    ''Increase income through supplementary earnings'',
                    ''Reduce fixed expenses to improve disposable income''])
                (rc_risk_flags repayment);
          maintenance =
            (if current_tier_key = ''excellent''
             then [Maintenance ''Maintain your excellent score''
                     [''Continue on-time payments across all obligations'',
                      ''Keep FOIR below 40% for best rates'',
                      ''Diversify income sources for higher limits'',
                      ''Build 6+ months emergency fund'']]
             else [])
      in upgrade @ health @ maintenance)"

subsection \<open>Persona loan recommendations (\<^verbatim>\<open>get_persona_loan_recommendations\<close>)\<close>

record recommendations =
  rec_score :: real
  rec_persona :: string
  rec_tier :: score_tier
  rec_repayment_capacity :: repayment_capacity
  rec_eligible_loans :: "loan_detail list"
  rec_ineligible_loans :: "loan_detail list"
  rec_max_simultaneous_loans :: int
  rec_total_eligible :: nat
  rec_estimated_monthly_income :: real
  rec_pre_approval_status :: string
  rec_improvement_path :: "improvement list"
  rec_source :: string

text \<open>
  \<^verbatim>\<open>PERSONA_LOANS.get(persona, PERSONA_LOANS["general_no_bank"])\<close>: a persona without a
  catalogue of its own gets the general one.
\<close>

definition persona_loan_catalog :: "string \<Rightarrow> (string \<times> loan_product) list" where
  "persona_loan_catalog persona =
     (case map_of PERSONA_LOANS persona of
        Some catalog \<Rightarrow> catalog
      | None \<Rightarrow> PERSONA_LOANS_general_no_bank)"

text \<open>
  The input dictionary is the argument after \<^verbatim>\<open>persona_data or {}\<close>: a missing one is
  the empty map.
\<close>

definition get_persona_loan_recommendations ::
  "string \<Rightarrow> real \<Rightarrow> pydict \<Rightarrow> real \<Rightarrow> py_error + recommendations" where
  "get_persona_loan_recommendations persona score persona_data monthly_income =
     (let tier = get_score_tier score;
          catalog = persona_loan_catalog persona
      in bind_err (if monthly_income \<le> 0 then estimate_income_from_persona persona persona_data
                   else Inr monthly_income) (\<lambda>monthly_income.
           let repayment = analyze_repayment_capacity monthly_income 0 0 (foir_cap tier);
               details =
                 map (\<lambda>(loan_key, loan).
                        build_persona_loan_detail loan_key loan score monthly_income tier repayment
                          (check_persona_loan_eligibility loan score persona_data tier))
                     catalog;
               eligible_loans = filter ld_eligible details;
               ineligible_loans = filter (\<lambda>d. \<not> ld_eligible d) details;
               eligible_loans = sort_key (\<lambda>x. - ld_max_loan_amount x) eligible_loans;
               improvement = get_credit_improvement_path score tier repayment
           in Inr \<lparr> rec_score = score, rec_persona = persona, rec_tier = tier,
                    rec_repayment_capacity = repayment,
                    rec_eligible_loans = eligible_loans,
                    rec_ineligible_loans = ineligible_loans,
                    rec_max_simultaneous_loans = max_simultaneous_loans tier,
                    rec_total_eligible = length eligible_loans,
                    rec_estimated_monthly_income = py_round monthly_income 0,
                    rec_pre_approval_status = pre_approval tier,
                    rec_improvement_path = improvement,
                    rec_source = ''alternative_profile'' \<rparr>))"

subsection \<open>Single-loan eligibility check (\<^verbatim>\<open>check_loan_eligibility\<close>)\<close>

record gap_entry =
  ga_check :: string
  ga_current :: string
  ga_required :: string
  ga_gap :: string
  ga_difficulty :: string

record loan_calc =
  lc_effective_rate :: real
  lc_max_eligible_amount :: real
  lc_actual_amount :: real
  lc_actual_tenure_months :: int
  lc_emi :: real
  lc_total_interest :: real
  lc_total_payable :: real
  lc_collateral_required :: bool
  lc_subsidy :: bool
  lc_amount_ok :: bool

text \<open>The keys that only the result for a loan that was found has.\<close>

record check_context =
  cc_source :: string
  cc_persona :: string
  cc_score_used :: real
  cc_tier :: string
  cc_repayment_capacity :: repayment_capacity

record eligibility_check =
  ec_eligible :: bool
  ec_verdict :: string
  ec_loan_name :: string
  ec_reasons_pass :: "string list"
  ec_reasons_fail :: "string list"
  ec_gap_analysis :: "gap_entry list"
  ec_loan_details :: "loan_calc option"
  ec_improvement_steps :: "string list"
  ec_context :: "check_context option"

text \<open>Resolving the loan from the catalogue (the first block of the function).\<close>

definition resolve_loan :: "string \<Rightarrow> string \<Rightarrow> string \<Rightarrow> loan_product option" where
  "resolve_loan loan_key source persona =
     (if source = ''transaction'' then map_of TRANSACTION_LOANS loan_key
      else if source = ''persona'' \<and> persona \<noteq> [] then
        (case map_of PERSONA_LOANS persona of
           None \<Rightarrow> None
         | Some persona_catalog \<Rightarrow> map_of persona_catalog loan_key)
      else None)"

definition loan_not_found :: "string \<Rightarrow> string \<Rightarrow> string \<Rightarrow> eligibility_check" where
  "loan_not_found loan_key source persona =
     \<lparr> ec_eligible = False, ec_verdict = ''LOAN_NOT_FOUND'', ec_loan_name = loan_key,
       ec_reasons_pass = [],
       ec_reasons_fail = [''Loan '' @ [CHR 0x27] @ loan_key @ [CHR 0x27] @ '' not found in ''
                            @ source @ ''/'' @ persona @ '' catalog''],
       ec_gap_analysis = [], ec_loan_details = None, ec_improvement_steps = [],
       ec_context = None \<rparr>"

text \<open>Checks 1 to 5: the reasons that pass, the reasons that fail and the gap entries.\<close>

definition run_checks ::
  "loan_product \<Rightarrow> string \<Rightarrow> real \<Rightarrow> real \<Rightarrow> score_tier \<Rightarrow> repayment_capacity \<Rightarrow> pydict
     \<Rightarrow> string list \<times> string list \<times> gap_entry list" where
  "run_checks loan source score monthly_income tier repayment persona_data =
     (let min_score = ln_min_score loan;
          score_ok = (score \<ge> of_int min_score);
          gap = of_int min_score - score;
          pass1 = (if score_ok
                   then [''Score '' @ fmt_f0 score @ '' meets minimum requirement of ''
                           @ show_int min_score]
                   else []);
          fail1 = (if score_ok then []
                   else [''Score '' @ fmt_f0 score @ '' is below minimum '' @ show_int min_score
                           @ '' (need +'' @ fmt_f0 gap @ '' points)'']);
          gap1 = (if score_ok then []
                  else [\<lparr> ga_check = ''Credit Score'', ga_current = fmt_f0 score,
                           ga_required = show_int min_score,
                           ga_gap = ''+'' @ fmt_f0 gap @ '' points needed'',
                           ga_difficulty = (if gap \<le> 50 then ''Medium'' else ''Hard'') \<rparr>]);
          min_income = (case ln_min_income loan of Some m \<Rightarrow> m | None \<Rightarrow> 0);
          income_checked = (source = ''transaction'' \<and> min_income > 0);
          income_ok = (monthly_income \<ge> of_int min_income);
          gap_income = of_int min_income - monthly_income;
          pass2 = (if income_checked \<and> income_ok
                   then [''Monthly income Rs.'' @ fmt_f0_commas monthly_income
                           @ '' meets minimum Rs.'' @ fmt_int_commas min_income]
                   else []);
          fail2 = (if income_checked \<and> \<not> income_ok
                   then [''Monthly income Rs.'' @ fmt_f0_commas monthly_income
                           @ '' below minimum Rs.'' @ fmt_int_commas min_income
                           @ '' (need +Rs.'' @ fmt_f0_commas gap_income @ '')'']
                   else []);
          gap2 = (if income_checked \<and> \<not> income_ok
                  then [\<lparr> ga_check = ''Monthly Income'',
                           ga_current = ''Rs.'' @ fmt_f0_commas monthly_income,
                           ga_required = ''Rs.'' @ fmt_int_commas min_income,
                           ga_gap = ''+Rs.'' @ fmt_f0_commas gap_income @ ''/month needed'',
                           ga_difficulty = ''Hard'' \<rparr>]
                  else []);
          tier_ok = (max_simultaneous_loans tier > 0);
          pass3 = (if tier_ok
                   then [''Score tier '' @ [CHR 0x27] @ grade tier @ [CHR 0x27]
                           @ '' allows up to '' @ show_int (max_simultaneous_loans tier)
                           @ '' loan(s)'']
                   else []);
          fail3 = (if tier_ok then []
                   else [''Score tier 'Very Poor' does not allow any loans. ''
                           @ ''Improve score to 400+ first.'']);
          gap3 = (if tier_ok then []
                  else [\<lparr> ga_check = ''Loan Tier Access'', ga_current = grade tier,
                           ga_required = ''Poor (400+)'',
                           ga_gap = ''+'' @ fmt_f0 (400 - score) @ '' points to unlock loan access'',
                           ga_difficulty = ''Hard'' \<rparr>]);
          emi_text = fmt_f0_commas (rc_max_new_emi repayment);
          pass4 = (if rc_verdict repayment = ''NOT_ELIGIBLE'' then []
                   else if rc_verdict repayment = ''MICRO_ONLY''
                   then [''Limited repayment capacity: max new EMI Rs.'' @ emi_text]
                   else [''Repayment capacity healthy: max new EMI Rs.'' @ emi_text]);
          fail4 = (if rc_verdict repayment = ''NOT_ELIGIBLE''
                   then [''Repayment capacity insufficient '' @ em_dash
                           @ '' income is zero or FOIR exceeded'']
                   else []);
          gap4 = (if rc_verdict repayment = ''NOT_ELIGIBLE''
                  then [\<lparr> ga_check = ''Repayment Capacity'',
                           ga_current = ''Max new EMI: Rs.'' @ emi_text,
                           ga_required = ''Positive EMI capacity'',
                           ga_gap = ''Reduce existing EMIs or increase income'',
                           ga_difficulty = ''Hard'' \<rparr>]
                  else []);
          criteria = (case ln_eligibility_criteria loan of Some cs \<Rightarrow> cs | None \<Rightarrow> []);
          label_of = (\<lambda>criterion. title (replace_underscores criterion));
          pass5 = map (\<lambda>c. ''Criteria '' @ [CHR 0x27] @ label_of c @ [CHR 0x27] @ '' is met'')
                      (filter (criterion_met persona_data) criteria);
          fail5 = map (\<lambda>c. ''Criteria '' @ [CHR 0x27] @ label_of c @ [CHR 0x27]
                              @ '' not verified '' @ em_dash
                              @ '' provide proof/data to strengthen application'')
                      (filter (\<lambda>c. \<not> criterion_met persona_data c) criteria)
      in (pass1 @ pass2 @ pass3 @ pass4 @ pass5,
          fail1 @ fail2 @ fail3 @ fail4 @ fail5,
          gap1 @ gap2 @ gap3 @ gap4))"

text \<open>The verdict from the failed reasons and the repayment verdict.\<close>

definition decide_verdict :: "string list \<Rightarrow> repayment_capacity \<Rightarrow> string" where
  "decide_verdict reasons_fail repayment =
     (let has_score_fail =
            list_ex (\<lambda>r. contains ''Score'' r \<and> contains ''below'' r) reasons_fail;
          has_income_fail =
            list_ex (\<lambda>r. contains ''income'' (lower r) \<and> contains ''below'' (lower r)) reasons_fail;
          has_tier_fail =
            list_ex (\<lambda>r. contains ''Loan Tier'' r \<or> contains ''Very Poor'' r) reasons_fail
      in if has_tier_fail then ''NOT_ELIGIBLE''
         else if has_score_fail \<and> has_income_fail then ''NOT_ELIGIBLE''
         else if has_score_fail \<or> has_income_fail then ''NOT_ELIGIBLE''
         else if rc_verdict repayment = ''NOT_ELIGIBLE'' then ''NOT_ELIGIBLE''
         else if rc_verdict repayment = ''MICRO_ONLY'' then ''MICRO_ONLY''
         else if length reasons_fail > 0 then ''ELIGIBLE_WITH_CAUTION''
         else ''ELIGIBLE'')"

text \<open>
  The loan details, computed when the verdict is not NOT_ELIGIBLE, with the reasons and
  gap entries this block adds and the flags for the two downgrades.
\<close>

definition compute_loan_details ::
  "loan_product \<Rightarrow> real \<Rightarrow> real \<Rightarrow> score_tier \<Rightarrow> repayment_capacity \<Rightarrow> real \<Rightarrow> int
     \<Rightarrow> loan_calc \<times> string list \<times> gap_entry list \<times> bool" where
  "compute_loan_details loan score monthly_income tier repayment desired_amount desired_tenure =
     (let (rate_low, rate_high) = ln_interest_range loan;
          effective_rate =
            (if score \<ge> 750 then rate_low
             else if score \<ge> 650 then rate_low + (rate_high - rate_low) * 0.3
             else if score \<ge> 500 then rate_low + (rate_high - rate_low) * 0.6
             else rate_high);
          max_by_product = of_int (snd (ln_amount_range loan));
          max_by_income = (if monthly_income > 0
                           then monthly_income * max_exposure_multiplier tier
                           else max_by_product);
          max_by_emi =
            (if rc_max_new_emi repayment > 0 then
               let mid_tenure =
                     (if desired_tenure > 0 then desired_tenure
                      else (fst (ln_tenure_range loan) + snd (ln_tenure_range loan)) div 2)
               in max_loan_from_emi (rc_max_new_emi repayment) effective_rate mid_tenure
             else 0);
          max_amount = (if max_by_emi > 0
                        then min (min max_by_product max_by_income) max_by_emi
                        else min max_by_product max_by_income);
          max_amount = max max_amount 0;
          actual_amount = (if 0 < desired_amount \<and> desired_amount \<le> max_amount
                           then desired_amount
                           else min (max_amount * 0.8) max_by_product);
          actual_amount = max actual_amount 0;
          actual_tenure = (if desired_tenure > 0 then desired_tenure
                           else snd (ln_tenure_range loan));
          actual_tenure = (if max_tenure_months tier > 0
                           then min actual_tenure (max_tenure_months tier)
                           else actual_tenure);
          actual_tenure = max actual_tenure (fst (ln_tenure_range loan));
          actual_tenure = min actual_tenure (snd (ln_tenure_range loan));
          emi = calculate_emi actual_amount effective_rate actual_tenure;
          total_interest = calculate_total_interest actual_amount effective_rate actual_tenure;
          total_payable = actual_amount + total_interest;
          amount_exceeds = (desired_amount > 0 \<and> desired_amount > max_amount);
          fail_amount =
            (if amount_exceeds
             then [''Desired amount Rs.'' @ fmt_f0_commas desired_amount
                     @ '' exceeds maximum eligible Rs.'' @ fmt_f0_commas max_amount]
             else []);
          gap_amount =
            (if amount_exceeds
             then [\<lparr> ga_check = ''Loan Amount'',
                      ga_current = ''Max eligible: Rs.'' @ fmt_f0_commas max_amount,
                      ga_required = ''Rs.'' @ fmt_f0_commas desired_amount,
                      ga_gap = ''Exceeds by Rs.'' @ fmt_f0_commas (desired_amount - max_amount),
                      ga_difficulty = ''Medium'' \<rparr>]
             else []);
          emi_exceeds = (emi > rc_max_new_emi repayment \<and> rc_max_new_emi repayment > 0);
          fail_emi =
            (if emi_exceeds
             then [''EMI Rs.'' @ fmt_f0_commas emi @ '' exceeds affordable EMI Rs.''
                     @ fmt_f0_commas (rc_max_new_emi repayment)]
             else []);
          gap_emi =
            (if emi_exceeds
             then [\<lparr> ga_check = ''EMI Affordability'',
                      ga_current = ''Affordable: Rs.'' @ fmt_f0_commas (rc_max_new_emi repayment)
                                   @ ''/mo'',
                      ga_required = ''Rs.'' @ fmt_f0_commas emi @ ''/mo'',
                      ga_gap = ''Reduce amount or extend tenure'',
                      ga_difficulty = ''Medium'' \<rparr>]
             else [])
      in (\<lparr> lc_effective_rate = py_round effective_rate 2,
            lc_max_eligible_amount = py_round max_amount 0,
            lc_actual_amount = py_round actual_amount 0,
            lc_actual_tenure_months = actual_tenure,
            lc_emi = py_round emi 2,
            lc_total_interest = py_round total_interest 2,
            lc_total_payable = py_round total_payable 2,
            lc_collateral_required = ln_collateral loan,
            lc_subsidy = ln_subsidy loan,
            lc_amount_ok = (\<not> amount_exceeds) \<rparr>,
          fail_amount @ fail_emi, gap_amount @ gap_emi, amount_exceeds))"

text \<open>The improvement steps for one gap entry.\<close>

definition steps_for_gap :: "loan_calc option \<Rightarrow> gap_entry \<Rightarrow> string list" where
  "steps_for_gap loan_details gap =
     (if ga_check gap = ''Credit Score'' then
        [''Improve score by '' @ ga_gap gap @ '' '' @ em_dash
           @ '' pay bills on time, maintain consistent income records'',
         ''Use Score Builder page to see exactly which criteria to improve'']
      else if ga_check gap = ''Monthly Income'' then
        [''Increase income by '' @ ga_gap gap @ '' '' @ em_dash
           @ '' consider supplementary income sources'',
         ''After income improves, upload 6-month bank statement to verify'']
      else if ga_check gap = ''Loan Tier Access'' then
        [''Focus on consistently paying utility bills on time'',
         ''Get registered with Aadhaar + PAN for identity verification'',
         ''Join an SHG or JLG group for initial credit access'']
      else if ga_check gap = ''Repayment Capacity'' then
        [''Pay off or reduce existing loan EMIs first'',
         ''Reduce monthly fixed expenses'',
         ''Consider increasing income before applying'']
      else if ga_check gap = ''Loan Amount'' then
        [''Apply for a lower amount (max eligible: ''
           @ (case loan_details of
                Some d \<Rightarrow> str_whole_float (lc_max_eligible_amount d)
              | None \<Rightarrow> ''N/A'') @ '')'',
         ''Improve score / income to increase eligibility limit'']
      else if ga_check gap = ''EMI Affordability'' then
        [''Choose a longer tenure to reduce monthly EMI'',
         ''Apply for a smaller amount to bring EMI within budget'',
         ''Pay off existing EMIs to free up capacity'']
      else [])"

definition check_loan_eligibility ::
  "string \<Rightarrow> string \<Rightarrow> string \<Rightarrow> real \<Rightarrow> real \<Rightarrow> real \<Rightarrow> real \<Rightarrow> pydict \<Rightarrow> real \<Rightarrow> int
     \<Rightarrow> py_error + eligibility_check" where
  "check_loan_eligibility loan_key source persona score monthly_income monthly_expenses
       existing_emi persona_data desired_amount desired_tenure =
     (case resolve_loan loan_key source persona of
        None \<Rightarrow> Inr (loan_not_found loan_key source persona)
      | Some loan \<Rightarrow>
          let tier = get_score_tier score;
              foir = foir_cap tier
          in bind_err (if monthly_income \<le> 0 \<and> source = ''persona'' \<and> persona \<noteq> []
                       then estimate_income_from_persona persona persona_data
                       else Inr monthly_income) (\<lambda>monthly_income.
               let repayment =
                     analyze_repayment_capacity monthly_income monthly_expenses existing_emi foir;
                   (reasons_pass, reasons_fail, gap_analysis) =
                     run_checks loan source score monthly_income tier repayment persona_data;
                   eligible = (length reasons_fail = 0);
                   verdict = decide_verdict reasons_fail repayment;
                   with_details = (verdict = ''ELIGIBLE'' \<or> verdict = ''ELIGIBLE_WITH_CAUTION''
                                   \<or> verdict = ''MICRO_ONLY'');
                   (details, more_fail, more_gap, amount_exceeds) =
                     compute_loan_details loan score monthly_income tier repayment
                       desired_amount desired_tenure;
                   loan_details = (if with_details then Some details else None);
                   reasons_fail = (if with_details then reasons_fail @ more_fail else reasons_fail);
                   gap_analysis = (if with_details then gap_analysis @ more_gap else gap_analysis);
                   eligible = (if with_details \<and> amount_exceeds then False else eligible);
                   verdict = (if with_details \<and> amount_exceeds \<and> verdict = ''ELIGIBLE''
                              then ''ELIGIBLE_WITH_CAUTION'' else verdict);
                   improvement_steps = concat (map (steps_for_gap loan_details) gap_analysis);
                   improvement_steps =
                     (if improvement_steps = [] \<and> \<not> eligible
                      then improvement_steps
                           @ [''Improve your credit score and income to become eligible for this loan.'']
                      else improvement_steps);
                   improvement_steps =
                     (if eligible \<and> verdict = ''ELIGIBLE''
                      then [''You are fully eligible! Gather the required documents and apply.'',
                            ''Compare rates across multiple lenders for the best deal.'']
                      else improvement_steps)
               in Inr \<lparr> ec_eligible = eligible, ec_verdict = verdict,
                        ec_loan_name = ln_name loan,
                        ec_reasons_pass = reasons_pass, ec_reasons_fail = reasons_fail,
                        ec_gap_analysis = gap_analysis, ec_loan_details = loan_details,
                        ec_improvement_steps = improvement_steps,
                        ec_context = Some \<lparr> cc_source = source, cc_persona = persona,
                                            cc_score_used = score, cc_tier = grade tier,
                                            cc_repayment_capacity = repayment \<rparr> \<rparr>))"

section \<open>Properties\<close>

subsection \<open>Rounding\<close>

lemma round_half_even_lower: "x - 1 / 2 \<le> of_int (round_half_even x)"
  unfolding round_half_even_def Let_def by (auto; linarith)

lemma round_half_even_upper: "of_int (round_half_even x) \<le> x + 1 / 2"
  unfolding round_half_even_def Let_def by (auto; linarith)

lemma round_half_even_of_int [simp]: "round_half_even (of_int k) = k"
  unfolding round_half_even_def Let_def by simp

lemma round_half_even_mono:
  assumes "x \<le> y"
  shows "round_half_even x \<le> round_half_even y"
proof (cases "\<lfloor>x\<rfloor> = \<lfloor>y\<rfloor>")
  case True
  with assms show ?thesis
    unfolding round_half_even_def Let_def by auto
next
  case False
  with assms have "\<lfloor>x\<rfloor> + 1 \<le> \<lfloor>y\<rfloor>"
    using floor_mono [of x y] by linarith
  moreover have "round_half_even x \<le> \<lfloor>x\<rfloor> + 1"
    unfolding round_half_even_def Let_def by auto
  moreover have "\<lfloor>y\<rfloor> \<le> round_half_even y"
    unfolding round_half_even_def Let_def by auto
  ultimately show ?thesis by linarith
qed

lemma py_round_mono: "x \<le> y \<Longrightarrow> py_round x nd \<le> py_round y nd"
  unfolding py_round_def
  by (intro divide_right_mono) (auto intro!: round_half_even_mono mult_right_mono)

lemma py_round_of_int [simp]: "py_round (of_int k) 0 = of_int k"
  unfolding py_round_def by simp

lemma py_round_numeral [simp]: "py_round (numeral k) 0 = numeral k"
  using py_round_of_int [of "numeral k"] by simp

lemma py_round_0_lower: "x - 1 / 2 \<le> py_round x 0"
  unfolding py_round_def using round_half_even_lower [of x] by simp

lemma py_round_0_upper: "py_round x 0 \<le> x + 1 / 2"
  unfolding py_round_def using round_half_even_upper [of x] by simp

lemma py_round_2_lower: "x - 1 / 200 \<le> py_round x 2"
  unfolding py_round_def using round_half_even_lower [of "x * 100"] by simp

lemma py_round_2_upper: "py_round x 2 \<le> x + 1 / 200"
  unfolding py_round_def using round_half_even_upper [of "x * 100"] by simp

lemma py_round_zero [simp]: "py_round 0 nd = 0"
  unfolding py_round_def round_half_even_def by simp

lemma py_round_nonneg: "0 \<le> x \<Longrightarrow> 0 \<le> py_round x nd"
  using py_round_mono [of 0 x nd] by simp

subsection \<open>EMI formula\<close>



subsection \<open>Repayment capacity\<close>



subsection \<open>Score tiers\<close>

text \<open>On whole-number scores the bands do partition [300, 900].\<close>

lemma tier_scan_integer_score:
  fixes k :: int
  assumes "300 \<le> k" and "k \<le> 900"
  shows "tier_scan (of_int k) SCORE_TIERS =
           Some (if 750 \<le> k then tier_excellent else if 650 \<le> k then tier_good
                 else if 500 \<le> k then tier_fair else if 400 \<le> k then tier_poor
                 else tier_very_poor)"
  using assms
  by (simp add: SCORE_TIERS_def tier_excellent_def tier_good_def tier_fair_def tier_poor_def
      tier_very_poor_def)

lemma tier_bands_integer_unique:
  fixes k :: int
  assumes "300 \<le> k" and "k \<le> 900"
  shows "length (filter (\<lambda>t. of_int (fst (score_range t)) \<le> (of_int k :: real)
                              \<and> (of_int k :: real) \<le> of_int (snd (score_range t))) SCORE_TIERS) = 1"
  using assms
  by (simp add: SCORE_TIERS_def tier_excellent_def tier_good_def tier_fair_def tier_poor_def
      tier_very_poor_def)

text \<open>
  Claim C2.  The claim asks that every score in [300, 900] lies in exactly one tier band
  and never reaches the default branch.  The bands are closed ranges with whole-number
  ends, (750, 900), (650, 749), (500, 649), (400, 499), (300, 399), and the score is a
  float: at 749.5, which is in [300, 900], no band matches, the loop ends, and the
  default branch returns the Very Poor tier.
\<close>

theorem C2_fractional_score_reaches_default:
  "(300::real) \<le> 749.5 \<and> (749.5::real) \<le> 900
   \<and> tier_scan 749.5 SCORE_TIERS = None
   \<and> get_score_tier 749.5 = tier_very_poor"
  by (simp add: get_score_tier_def SCORE_TIERS_def tier_excellent_def tier_good_def
      tier_fair_def tier_poor_def tier_very_poor_def)

subsection \<open>Final score\<close>

lemma final_trust_score_eq:
  "final_trust_score (compute_final_score b r row)
     = py_round (clip (300 + (b - 300) * (1 - r)) 300 900) 0"
proof -
  have e: "(b * 100 + r * 30000 - b * (r * 100)) / 100 = b + r * 300 - b * r"
    by (simp add: field_simps)
  have "final_trust_score (compute_final_score b r row)
          = py_round (clip ((b * 100 + r * 30000 - b * (r * 100)) / 100) 300 900) 0"
    by (simp add: compute_final_score_def Let_def MIN_SCORE_def MAX_SCORE_def split_def)
      (simp add: field_simps)
  also have "\<dots> = py_round (clip (b + r * 300 - b * r) 300 900) 0"
    by (simp only: e)
  also have "b + r * 300 - b * r = 300 + (b - 300) * (1 - r)"
    by (simp add: algebra_simps)
  finally show ?thesis .
qed

lemma py_round_0_clip_bounds:
  "300 \<le> py_round (clip x 300 900) 0 \<and> py_round (clip x 300 900) 0 \<le> 900"
proof -
  have "py_round (of_int 300) 0 \<le> py_round (clip x 300 900) 0"
    by (rule py_round_mono) (simp add: clip_def)
  moreover have "py_round (clip x 300 900) 0 \<le> py_round (of_int 900) 0"
    by (rule py_round_mono) (simp add: clip_def)
  ultimately show ?thesis by simp
qed




subsection \<open>EMI round trip\<close>

lemma annuity_numerator_le:
  fixes r :: real
  assumes "0 \<le> r"
  shows "(1 + r) ^ n - 1 \<le> of_nat n * r * (1 + r) ^ n"
proof (induction n)
  case 0
  show ?case by simp
next
  case (Suc n)
  have one: "1 \<le> (1 + r) ^ Suc n"
    using assms by (intro one_le_power) simp
  have "(1 + r) ^ Suc n - 1 = (1 + r) * ((1 + r) ^ n - 1) + r"
    by (simp add: algebra_simps)
  also have "\<dots> \<le> (1 + r) * (of_nat n * r * (1 + r) ^ n) + r"
    using Suc.IH assms by (intro add_right_mono mult_left_mono) auto
  also have "\<dots> \<le> (1 + r) * (of_nat n * r * (1 + r) ^ n) + r * (1 + r) ^ Suc n"
    using one assms mult_left_mono [of 1 "(1 + r) ^ Suc n" r] by simp
  also have "\<dots> = of_nat (Suc n) * r * (1 + r) ^ Suc n"
    by (simp add: algebra_simps)
  finally show ?case .
qed

lemma annuity_factor_le:
  fixes r :: real
  assumes "0 < r"
  shows "((1 + r) ^ n - 1) / (r * (1 + r) ^ n) \<le> of_nat n"
proof -
  have pos: "0 < r * (1 + r) ^ n"
    using assms by simp
  have "(1 + r) ^ n - 1 \<le> of_nat n * (r * (1 + r) ^ n)"
    using annuity_numerator_le [of r n] assms by (simp add: mult.assoc)
  then show ?thesis
    using pos by (simp add: pos_divide_le_eq)
qed

lemma annuity_factor_nonneg:
  fixes r :: real
  assumes "0 < r"
  shows "0 \<le> ((1 + r) ^ n - 1) / (r * (1 + r) ^ n)"
proof -
  have "1 \<le> (1 + r) ^ n"
    using assms by (intro one_le_power) simp
  then show ?thesis using assms by simp
qed

lemma emi_times_annuity:
  fixes r P :: real
  assumes "0 < r" and "0 < n"
  shows "(P * r * (1 + r) ^ n / ((1 + r) ^ n - 1)) * (((1 + r) ^ n - 1) / (r * (1 + r) ^ n)) = P"
proof -
  have "1 < (1 + r) ^ n"
    using assms by (intro one_less_power) simp_all
  then have "(1 + r) ^ n - 1 \<noteq> 0" by simp
  moreover have "r * (1 + r) ^ n \<noteq> 0" using assms by simp
  ultimately show ?thesis by (simp add: field_simps)
qed



subsection \<open>Repayment schedule\<close>

lemma schedule_loop_length [simp]: "length (schedule_loop emi r si sy b i k) = k"
  by (induction k arbitrary: b i) (simp_all add: Let_def)

lemma schedule_loop_last:
  "se_balance (last (schedule_loop emi r si sy b i (Suc k)))
     = py_round (final_balance emi r b (Suc k)) 2"
proof (induction k arbitrary: b i)
  case 0
  show ?case by (simp add: Let_def)
next
  case (Suc k)
  have ne: "schedule_loop emi r si sy b' i' (Suc k) \<noteq> []" for b' i'
    by (simp add: Let_def)
  show ?case
    using Suc.IH [of "max (b - (emi - b * r)) 0" "Suc i"] ne
    by (simp add: Let_def)
qed

lemma final_balance_nonneg: "0 \<le> b \<Longrightarrow> 0 \<le> final_balance emi r b k"
  by (induction k arbitrary: b) simp_all

lemma final_balance_lower:
  assumes "0 \<le> r"
  shows "b * (1 + r) ^ k - emi * (\<Sum>j<k. (1 + r) ^ j) \<le> final_balance emi r b k"
proof (induction k arbitrary: b)
  case 0
  show ?case by simp
next
  case (Suc k)
  let ?b = "max (b - (emi - b * r)) 0"
  have p: "0 \<le> (1 + r) ^ k" using assms by simp
  have "b * (1 + r) ^ Suc k - emi * (\<Sum>j<Suc k. (1 + r) ^ j)
          = (b - (emi - b * r)) * (1 + r) ^ k - emi * (\<Sum>j<k. (1 + r) ^ j)"
    by (simp add: algebra_simps)
  also have "\<dots> \<le> ?b * (1 + r) ^ k - emi * (\<Sum>j<k. (1 + r) ^ j)"
    using p by (intro diff_right_mono mult_right_mono) auto
  also have "\<dots> \<le> final_balance emi r ?b k" by (rule Suc.IH)
  finally show ?case by simp
qed

lemma final_balance_upper:
  assumes "0 \<le> r" and "0 \<le> emi"
  shows "0 \<le> b \<Longrightarrow>
         final_balance emi r b k \<le> max 0 (b * (1 + r) ^ k - emi * (\<Sum>j<k. (1 + r) ^ j))"
proof (induction k arbitrary: b)
  case 0
  then show ?case by simp
next
  case (Suc k)
  let ?b = "max (b - (emi - b * r)) 0"
  have p: "0 \<le> (1 + r) ^ k" using assms by simp
  have s: "0 \<le> (\<Sum>j<k. (1 + r) ^ j)" using assms by (intro sum_nonneg) simp
  have e: "b * (1 + r) ^ Suc k - emi * (\<Sum>j<Suc k. (1 + r) ^ j)
          = (b - (emi - b * r)) * (1 + r) ^ k - emi * (\<Sum>j<k. (1 + r) ^ j)"
    by (simp add: algebra_simps)
  have ih: "final_balance emi r ?b k \<le> max 0 (?b * (1 + r) ^ k - emi * (\<Sum>j<k. (1 + r) ^ j))"
    by (rule Suc.IH) simp
  show ?case
  proof (cases "0 \<le> b - (emi - b * r)")
    case True
    then have "?b = b - (emi - b * r)" by simp
    with ih e show ?thesis by simp
  next
    case False
    then have z: "?b = 0" by simp
    have "0 * (1 + r) ^ k - emi * (\<Sum>j<k. (1 + r) ^ j) \<le> 0"
      using assms s by (simp add: mult_nonneg_nonneg)
    with ih z have "final_balance emi r ?b k \<le> 0" by simp
    then show ?thesis by simp
  qed
qed

lemma geometric_sum_rate:
  fixes r :: real
  assumes "0 < r"
  shows "(\<Sum>j<k. (1 + r) ^ j) = ((1 + r) ^ k - 1) / r"
  using geometric_sum [of "1 + r" k] assms by simp

lemma schedule_loop_sorted:
  assumes "0 \<le> r"
  shows "0 \<le> b \<Longrightarrow> b * r \<le> emi \<Longrightarrow>
         sorted_wrt (\<ge>) (map se_balance (schedule_loop emi r si sy b i k))
         \<and> (\<forall>x \<in> set (map se_balance (schedule_loop emi r si sy b i k)). x \<le> py_round b 2)"
proof (induction k arbitrary: b i)
  case 0
  show ?case by simp
next
  case (Suc k)
  let ?b = "max (b - (emi - b * r)) 0"
  have b0: "0 \<le> ?b" by simp
  have le: "?b \<le> b" using Suc.prems by simp
  then have "?b * r \<le> b * r" using assms by (intro mult_right_mono)
  with Suc.prems have inv: "?b * r \<le> emi" by linarith
  from Suc.IH [OF b0 inv, of "Suc i"]
  have ih: "sorted_wrt (\<ge>) (map se_balance (schedule_loop emi r si sy ?b (Suc i) k))"
    and bd: "\<forall>x \<in> set (map se_balance (schedule_loop emi r si sy ?b (Suc i) k)). x \<le> py_round ?b 2"
    by blast+
  have rl: "py_round ?b 2 \<le> py_round b 2" using le by (rule py_round_mono)
  show ?case
    using ih bd rl by (auto simp add: Let_def)
qed

lemma py_round_2_eqI:
  assumes "of_int k - 1 / 2 < x * 100" and "x * 100 < of_int k + 1 / 2"
  shows "py_round x 2 = of_int k / 100"
proof -
  have "\<lfloor>x * 100\<rfloor> = k \<or> \<lfloor>x * 100\<rfloor> = k - 1"
    using assms by linarith
  then have "round_half_even (x * 100) = k"
    using assms unfolding round_half_even_def Let_def by (auto; linarith)
  then show ?thesis by (simp add: py_round_def)
qed

lemma growth_120_bounds:
  "(3.30038689::real) < (101 / 100) ^ 120 \<and> (101 / 100 :: real) ^ 120 < 3.30038690"
  by (simp add: power_divide)

lemma emi_ex: "calculate_emi 1950000 12 120 = 27976.83"
proof -
  define q :: real where "q = (101 / 100) ^ 120"
  have q: "3.30038689 < q" "q < 3.30038690"
    using growth_120_bounds by (simp_all add: q_def)
  then have q1: "0 < q - 1" by simp
  have e: "calculate_emi 1950000 12 120 = py_round (19500 * q / (q - 1)) 2"
    by (simp add: calculate_emi_def Let_def q_def)
  have "19500 * q / (q - 1) * 100 = 1950000 * q / (q - 1)" by simp
  moreover have "of_int 2797683 - 1 / 2 < 1950000 * q / (q - 1)"
    using q q1 by (simp add: pos_less_divide_eq)
  moreover have "1950000 * q / (q - 1) < of_int 2797683 + 1 / 2"
    using q q1 by (simp add: pos_divide_less_eq)
  ultimately have "py_round (19500 * q / (q - 1)) 2 = of_int 2797683 / 100"
    by (intro py_round_2_eqI) simp_all
  with e show ?thesis by simp
qed

lemma fb_ex: "1 \<le> final_balance 27976.83 (1 / 100) 1950000 120"
proof -
  define q :: real where "q = (101 / 100) ^ 120"
  have q: "3.30038689 < q" "q < 3.30038690"
    using growth_120_bounds by (simp_all add: q_def)
  have "1950000 * q - 27976.83 * ((q - 1) / (1 / 100)) = 2797683 - 847683 * q"
    by (simp add: field_simps)
  moreover have "q < 33003869 / 10000000"
    using q by simp
  then have "1 \<le> 2797683 - 847683 * q"
    by linarith
  ultimately have "1 \<le> 1950000 * q - 27976.83 * ((q - 1) / (1 / 100))"
    by simp
  also have "\<dots> = 1950000 * (1 + 1 / 100) ^ 120 - 27976.83 * (\<Sum>j<120. (1 + 1 / 100) ^ j)"
    using geometric_sum_rate [of "1 / 100" 120] by (simp add: q_def)
  also have "\<dots> \<le> final_balance 27976.83 (1 / 100) 1950000 120"
    by (rule final_balance_lower) simp
  finally show ?thesis .
qed




subsection \<open>Loan comparison\<close>

lemma score_loans_eq:
  "score_loans loans =
     map (\<lambda>l. (l, 0.35 * (max 0 (30 - ld_effective_rate l) / 30)
                    + 0.30 * min (ld_max_loan_amount l / 500000) 1
                    + 0.20 * (if ld_subsidy l then 1 else 0)
                    + 0.15 * (if ld_collateral_required l then 0 else 1 / 2)))
         (filter ld_eligible loans)"
  by (induction loans) (simp_all add: Let_def)

lemma compare_loans_eq:
  "compare_loans loans = take 3 (sort_key (\<lambda>x. - snd x) (score_loans loans))"
  by (cases loans) (simp_all add: compare_loans_def Let_def)

lemma sorted_desc_sort_key:
  "sorted_wrt (\<lambda>a b. snd b \<le> snd a) (sort_key (\<lambda>x. - snd x) (xs :: ('a \<times> real) list))"
proof -
  have "sorted (map (\<lambda>x. - snd x) (sort_key (\<lambda>x. - snd x) xs))"
    by (rule sorted_sort_key)
  then show ?thesis by (simp add: sorted_map)
qed

text \<open>
  Claim C9, amended.  \<open>compare_loans\<close> returns the first three (all, when fewer) of
  the eligible loans of its input.  Each carries the composite score
  \<open>0.35 rate_score + 0.30 amount_score + 0.20 subsidy_score + 0.15 collateral_score\<close>
  with \<open>rate_score = max 0 (30 - rate) / 30\<close>, \<open>amount_score = min (amount / 500000) 1\<close>,
  \<open>subsidy_score\<close> 1 or 0, and \<open>collateral_score\<close> 0.5 when no collateral is required
  and 0 otherwise.  The result is in descending order of that score, and no eligible
  loan left out scores higher than a returned one.
\<close>

theorem C9_compare_loans_ranking:
  fixes loans :: "loan_detail list"
  defines "score_of \<equiv> (\<lambda>l. 0.35 * (max 0 (30 - ld_effective_rate l) / 30)
                    + 0.30 * min (ld_max_loan_amount l / 500000) 1
                    + 0.20 * (if ld_subsidy l then 1 else 0)
                    + 0.15 * (if ld_collateral_required l then 0 else 1 / 2))"
  shows "length (compare_loans loans) = min 3 (length (filter ld_eligible loans))
         \<and> (\<forall>(l, c) \<in> set (compare_loans loans). l \<in> set loans \<and> ld_eligible l \<and> c = score_of l)
         \<and> sorted_wrt (\<lambda>a b. snd b \<le> snd a) (compare_loans loans)
         \<and> (\<forall>l \<in> set loans. ld_eligible l \<and> (l, score_of l) \<notin> set (compare_loans loans) \<longrightarrow>
               (\<forall>(l', c') \<in> set (compare_loans loans). score_of l \<le> c'))"
proof -
  define scored where "scored = sort_key (\<lambda>x. - snd x) (score_loans loans)"
  have res: "compare_loans loans = take 3 scored"
    by (simp add: compare_loans_eq scored_def)
  have sl: "score_loans loans = map (\<lambda>l. (l, score_of l)) (filter ld_eligible loans)"
    unfolding score_of_def by (rule score_loans_eq)
  have set_scored: "set scored = (\<lambda>l. (l, score_of l)) ` {l \<in> set loans. ld_eligible l}"
    by (simp add: scored_def sl)
  have len: "length (compare_loans loans) = min 3 (length (filter ld_eligible loans))"
    by (simp add: res scored_def sl min.commute)
  have mem: "\<forall>(l, c) \<in> set (compare_loans loans). l \<in> set loans \<and> ld_eligible l \<and> c = score_of l"
  proof -
    have "set (compare_loans loans) \<subseteq> set scored"
      unfolding res by (rule set_take_subset)
    with set_scored show ?thesis by auto
  qed
  have srt: "sorted_wrt (\<lambda>a b. snd b \<le> snd a) scored"
    unfolding scored_def by (rule sorted_desc_sort_key)
  have srt3: "sorted_wrt (\<lambda>a b. snd b \<le> snd a) (compare_loans loans)"
    unfolding res using srt by (rule sorted_wrt_take)
  have top: "\<forall>l \<in> set loans. ld_eligible l \<and> (l, score_of l) \<notin> set (compare_loans loans) \<longrightarrow>
               (\<forall>(l', c') \<in> set (compare_loans loans). score_of l \<le> c')"
  proof (intro ballI impI)
    fix l x
    assume l: "l \<in> set loans" and h: "ld_eligible l \<and> (l, score_of l) \<notin> set (compare_loans loans)"
      and x: "x \<in> set (compare_loans loans)"
    from l h have "(l, score_of l) \<in> set scored" by (auto simp: set_scored)
    then have "(l, score_of l) \<in> set (take 3 scored) \<union> set (drop 3 scored)"
      by (metis append_take_drop_id set_append)
    with h have d: "(l, score_of l) \<in> set (drop 3 scored)" by (simp add: res)
    from srt have "sorted_wrt (\<lambda>a b. snd b \<le> snd a) (take 3 scored @ drop 3 scored)"
      by simp
    then have "\<forall>a \<in> set (take 3 scored). \<forall>b \<in> set (drop 3 scored). snd b \<le> snd a"
      unfolding sorted_wrt_append by blast
    then have "snd (l, score_of l) \<le> snd x"
      using d x unfolding res by blast
    then have "score_of l \<le> snd x" by simp
    then show "case x of (l', c') \<Rightarrow> score_of l \<le> c'" by (simp add: split_def)
  qed
  from len mem srt3 top show ?thesis by blast
qed

text \<open>
  Claim C9, as stated, gives the term for a loan without collateral the weight 0.15.
  The code scores such a loan 0.5, not 1, before applying the weight: an eligible
  unsecured loan at 10.5 percent with a maximum of 240000 and no subsidy gets 0.4465,
  not the 0.5215 of the stated formula.
\<close>

theorem C9_collateral_weight_counterexample:
  "compare_loans [sample_detail ''personal_loan'' True 10.5 240000 False False]
     = [(sample_detail ''personal_loan'' True 10.5 240000 False False, 0.4465)]
   \<and> (0.4465::real) \<noteq> 0.35 * (max 0 (30 - 10.5) / 30) + 0.30 * min (240000 / 500000) 1
                          + 0.20 * 0 + 0.15 * 1"
  by (simp add: compare_loans_def sample_detail_def Let_def)

text \<open>
  The ranking of five sample loans, of which one is not eligible.
\<close>

theorem C9_compare_loans_ranking_witness:
  "length (compare_loans sample_loans) = 3
   \<and> sorted_wrt (\<lambda>a b. snd b \<le> snd a) (compare_loans sample_loans)
   \<and> map (\<lambda>x. (ld_key (fst x), snd x)) (compare_loans sample_loans)
       = [(''education_loan'', 0.82), (''gold_loan'', 0.485), (''personal_loan'', 0.435)]"
proof -
  have f: "length (filter ld_eligible sample_loans) = 4"
    by (simp add: sample_loans_def sample_detail_def)
  have v: "map (\<lambda>x. (ld_key (fst x), snd x)) (compare_loans sample_loans)
       = [(''education_loan'', 0.82), (''gold_loan'', 0.485), (''personal_loan'', 0.435)]"
    by (simp add: compare_loans_def sample_loans_def sample_detail_def Let_def)
  from C9_compare_loans_ranking [of sample_loans] f v show ?thesis by simp
qed

subsection \<open>Persona loan detail\<close>

lemma recommended_amount_eq:
  "ld_recommended_amount (build_persona_loan_detail k loan score income tier rep el)
     = py_round (max (min ((if income > 0 \<and> income * max_exposure_multiplier tier > 0
                               \<and> income * max_exposure_multiplier tier < of_int (snd (ln_amount_range loan))
                            then income * max_exposure_multiplier tier
                            else of_int (snd (ln_amount_range loan))) * 0.6)
                          (of_int (snd (ln_amount_range loan))))
                     (of_int (fst (ln_amount_range loan)))) 0"
  by (simp add: build_persona_loan_detail_def Let_def split_def)

lemma max_loan_amount_eq:
  "ld_max_loan_amount (build_persona_loan_detail k loan score income tier rep el)
     = py_round (if income > 0 \<and> income * max_exposure_multiplier tier > 0
                      \<and> income * max_exposure_multiplier tier < of_int (snd (ln_amount_range loan))
                 then income * max_exposure_multiplier tier
                 else of_int (snd (ln_amount_range loan))) 0"
  by (simp add: build_persona_loan_detail_def Let_def split_def)

text \<open>
  Claim C10, amended.  The recommended amount of a persona loan detail is never below
  the product minimum, for every product, score, income, tier and eligibility.  When
  the income cap \<open>income * multiplier\<close> is positive and below both ends of the product's
  amount range, the recommended amount is the product minimum and the maximum loan
  amount is the rounded income cap, so the recommended amount is at least the maximum
  loan amount, and strictly above it when the cap is more than one half below the
  minimum.
\<close>

theorem C10_recommended_at_least_minimum:
  fixes loan :: loan_product and tier :: score_tier
  defines "d \<equiv> (\<lambda>k score income rep el. build_persona_loan_detail k loan score income tier rep el)"
  defines "income_cap \<equiv> (\<lambda>income. income * max_exposure_multiplier tier)"
  shows "of_int (fst (ln_amount_range loan)) \<le> ld_recommended_amount (d k score income rep el)
         \<and> (0 < income \<and> 0 < income_cap income
              \<and> income_cap income < of_int (snd (ln_amount_range loan))
              \<and> income_cap income < of_int (fst (ln_amount_range loan)) \<longrightarrow>
                ld_recommended_amount (d k score income rep el) = of_int (fst (ln_amount_range loan))
                \<and> ld_max_loan_amount (d k score income rep el) = py_round (income_cap income) 0
                \<and> ld_max_loan_amount (d k score income rep el)
                     \<le> ld_recommended_amount (d k score income rep el)
                \<and> (income_cap income < of_int (fst (ln_amount_range loan)) - 1 / 2 \<longrightarrow>
                     ld_max_loan_amount (d k score income rep el)
                       < ld_recommended_amount (d k score income rep el)))"
proof (intro conjI impI)
  let ?lo = "fst (ln_amount_range loan)"
  let ?hi = "snd (ln_amount_range loan)"
  show "of_int ?lo \<le> ld_recommended_amount (d k score income rep el)"
  proof -
    have "py_round (of_int ?lo) 0 \<le> ld_recommended_amount (d k score income rep el)"
      unfolding d_def recommended_amount_eq by (rule py_round_mono) simp
    then show ?thesis by simp
  qed
  assume h: "0 < income \<and> 0 < income_cap income \<and> income_cap income < of_int ?hi
             \<and> income_cap income < of_int ?lo"
  then have c: "income_cap income * 0.6 \<le> income_cap income" by simp
  from h c have "max (min (income_cap income * 0.6) (of_int ?hi)) (of_int ?lo) = of_int ?lo"
    by (simp add: max_def min_def)
  with h show rec: "ld_recommended_amount (d k score income rep el) = of_int ?lo"
    unfolding d_def recommended_amount_eq income_cap_def by simp
  from h show mx: "ld_max_loan_amount (d k score income rep el) = py_round (income_cap income) 0"
    unfolding d_def max_loan_amount_eq income_cap_def by simp
  have "py_round (income_cap income) 0 \<le> py_round (of_int ?lo) 0"
    using h by (intro py_round_mono) simp
  then show "ld_max_loan_amount (d k score income rep el)
               \<le> ld_recommended_amount (d k score income rep el)"
    unfolding rec mx by simp
  assume "income_cap income < of_int ?lo - 1 / 2"
  then show "ld_max_loan_amount (d k score income rep el)
               < ld_recommended_amount (d k score income rep el)"
    unfolding rec mx using py_round_0_upper [of "income_cap income"] by linarith
qed


text \<open>
  Claim C10, as stated, says that the recommended amount exceeds the maximum loan
  amount whenever the income cap is below the product minimum.  Both are rounded to
  whole numbers: for the farmer crop loan (minimum 10000) at score 450 (multiplier 1)
  and income 9999.6, both are 10000.
\<close>

theorem C10_rounded_cap_counterexample:
  "(0::real) < 9999.6
   \<and> 9999.6 * max_exposure_multiplier (get_score_tier 450)
        < of_int (fst (ln_amount_range (the (map_of PERSONA_LOANS_farmer ''crop_loan''))))
   \<and> ld_recommended_amount
        (build_persona_loan_detail ''crop_loan'' (the (map_of PERSONA_LOANS_farmer ''crop_loan''))
           450 9999.6 (get_score_tier 450) (analyze_repayment_capacity 9999.6 0 0 0.30)
           (check_persona_loan_eligibility (the (map_of PERSONA_LOANS_farmer ''crop_loan''))
              450 Map.empty (get_score_tier 450))) = 10000
   \<and> ld_max_loan_amount
        (build_persona_loan_detail ''crop_loan'' (the (map_of PERSONA_LOANS_farmer ''crop_loan''))
           450 9999.6 (get_score_tier 450) (analyze_repayment_capacity 9999.6 0 0 0.30)
           (check_persona_loan_eligibility (the (map_of PERSONA_LOANS_farmer ''crop_loan''))
              450 Map.empty (get_score_tier 450))) = 10000"
proof -
  have t: "get_score_tier 450 = tier_poor"
    by (simp add: get_score_tier_def SCORE_TIERS_def tier_excellent_def tier_good_def
        tier_fair_def tier_poor_def)
  have l: "ln_amount_range (the (map_of PERSONA_LOANS_farmer ''crop_loan'')) = (10000, 200000)"
    by (simp add: PERSONA_LOANS_farmer_def)
  show ?thesis
    unfolding recommended_amount_eq max_loan_amount_eq t l
    by (simp add: tier_poor_def py_round_def round_half_even_def Let_def)
qed

text \<open>
  The same product at income 5000: recommended 10000, maximum loan amount 5000.
\<close>

theorem C10_recommended_at_least_minimum_witness:
  "(0::real) < 5000
   \<and> 5000 * max_exposure_multiplier tier_poor
        < of_int (fst (ln_amount_range (the (map_of PERSONA_LOANS_farmer ''crop_loan'')))) - 1 / 2
   \<and> ld_recommended_amount
        (build_persona_loan_detail ''crop_loan'' (the (map_of PERSONA_LOANS_farmer ''crop_loan''))
           450 5000 tier_poor (analyze_repayment_capacity 5000 0 0 0.30)
           (check_persona_loan_eligibility (the (map_of PERSONA_LOANS_farmer ''crop_loan''))
              450 Map.empty tier_poor)) = 10000
   \<and> ld_max_loan_amount
        (build_persona_loan_detail ''crop_loan'' (the (map_of PERSONA_LOANS_farmer ''crop_loan''))
           450 5000 tier_poor (analyze_repayment_capacity 5000 0 0 0.30)
           (check_persona_loan_eligibility (the (map_of PERSONA_LOANS_farmer ''crop_loan''))
              450 Map.empty tier_poor))
       < ld_recommended_amount
        (build_persona_loan_detail ''crop_loan'' (the (map_of PERSONA_LOANS_farmer ''crop_loan''))
           450 5000 tier_poor (analyze_repayment_capacity 5000 0 0 0.30)
           (check_persona_loan_eligibility (the (map_of PERSONA_LOANS_farmer ''crop_loan''))
              450 Map.empty tier_poor))"
proof -
  have l: "ln_amount_range (the (map_of PERSONA_LOANS_farmer ''crop_loan'')) = (10000, 200000)"
    by (simp add: PERSONA_LOANS_farmer_def)
  have m: "max_exposure_multiplier tier_poor = 1"
    by (simp add: tier_poor_def)
  show ?thesis
    using C10_recommended_at_least_minimum
      [where loan = "the (map_of PERSONA_LOANS_farmer ''crop_loan'')" and tier = tier_poor
         and income = 5000 and k = "''crop_loan''" and score = 450
         and rep = "analyze_repayment_capacity 5000 0 0 0.30"
         and el = "check_persona_loan_eligibility (the (map_of PERSONA_LOANS_farmer ''crop_loan''))
              450 Map.empty tier_poor"]
    unfolding l m by simp
qed

subsection \<open>Persona scoring\<close>

lemma py_round_clip_confidence:
  "0.30 \<le> py_round (clip x 0.30 0.95) 2 \<and> py_round (clip x 0.30 0.95) 2 \<le> 0.95"
proof -
  have a: "py_round 0.30 2 = 0.30" "py_round 0.95 2 = 0.95"
    by (simp_all add: py_round_def round_half_even_def Let_def)
  have "py_round 0.30 2 \<le> py_round (clip x 0.30 0.95) 2"
    by (rule py_round_mono) (simp add: clip_def)
  moreover have "py_round (clip x 0.30 0.95) 2 \<le> py_round 0.95 2"
    by (rule py_round_mono) (simp add: clip_def)
  ultimately show ?thesis unfolding a by simp
qed

lemma persona_score_range:
  assumes "compute_persona_score persona data = Inr r"
  shows "300 \<le> ps_trust_score r \<and> ps_trust_score r \<le> 900
         \<and> 0.30 \<le> ps_confidence r \<and> ps_confidence r \<le> 0.95"
  using assms py_round_0_clip_bounds py_round_clip_confidence
  by (auto simp: compute_persona_score_def bind_err_def Let_def split_def
      split: option.splits sum.splits if_splits)

lemma land_asset_empty:
  "score_land_asset Map.empty = Inr \<lparr> cr_score = 0.12, cr_label = ''Land / Asset Ownership'' \<rparr>"
  by code_simp

lemma crop_consistency_empty:
  "score_crop_consistency Map.empty = Inr \<lparr> cr_score = 0.245, cr_label = ''Crop / Yield Consistency'' \<rparr>"
  by code_simp

lemma subsidy_linkage_empty:
  "score_subsidy_linkage Map.empty = Inr \<lparr> cr_score = 0, cr_label = ''Government Subsidy Linkage'' \<rparr>"
  by code_simp

lemma market_engagement_empty:
  "score_market_engagement Map.empty = Inr \<lparr> cr_score = 0, cr_label = ''Market Engagement'' \<rparr>"
  by code_simp

lemma academic_performance_empty:
  "score_academic_performance Map.empty = Inr \<lparr> cr_score = 0, cr_label = ''Academic Performance'' \<rparr>"
  by code_simp

lemma scholarship_history_empty:
  "score_scholarship_history Map.empty = Inr \<lparr> cr_score = 0, cr_label = ''Scholarship History'' \<rparr>"
  by code_simp

lemma skill_certifications_empty:
  "score_skill_certifications Map.empty = Inr \<lparr> cr_score = 0, cr_label = ''Skill Certifications'' \<rparr>"
  by code_simp

lemma attendance_discipline_empty:
  "score_attendance_discipline Map.empty = Inr \<lparr> cr_score = 0, cr_label = ''Attendance Discipline'' \<rparr>"
  by code_simp

lemma part_time_income_empty:
  "score_part_time_income Map.empty = Inr \<lparr> cr_score = 0.30, cr_label = ''Part-time / Freelance Income'' \<rparr>"
  by code_simp

lemma future_potential_empty:
  "score_future_potential Map.empty = Inr \<lparr> cr_score = 0.375, cr_label = ''Future Earning Potential'' \<rparr>"
  by code_simp

lemma daily_income_consistency_empty:
  "score_daily_income_consistency Map.empty = Inr \<lparr> cr_score = 0.18, cr_label = ''Daily Income Consistency'' \<rparr>"
  by code_simp

lemma rental_discipline_empty:
  "score_rental_discipline Map.empty = Inr \<lparr> cr_score = 0.40, cr_label = ''Rental Payment Discipline'' \<rparr>"
  by code_simp

lemma utility_discipline_empty:
  "score_utility_discipline Map.empty = Inr \<lparr> cr_score = 0.36, cr_label = ''Utility Bill Discipline'' \<rparr>"
  by code_simp

lemma savings_habit_empty:
  "score_savings_habit Map.empty = Inr \<lparr> cr_score = 0.03, cr_label = ''Savings Discipline'' \<rparr>"
  by code_simp

lemma community_trust_empty:
  "score_community_trust Map.empty = Inr \<lparr> cr_score = 0, cr_label = ''Community Trust Network'' \<rparr>"
  by code_simp

lemma mobile_behaviour_empty:
  "score_mobile_behaviour Map.empty = Inr \<lparr> cr_score = 0.12, cr_label = ''Mobile Behaviour & Digital Footprint'' \<rparr>"
  by code_simp

lemma years_in_trade_empty:
  "score_years_in_trade Map.empty = Inr \<lparr> cr_score = 0, cr_label = ''Years in Trade'' \<rparr>"
  by code_simp

lemma household_budgeting_empty:
  "score_household_budgeting Map.empty = Inr \<lparr> cr_score = 0.13, cr_label = ''Household Budget Management'' \<rparr>"
  by code_simp

lemma micro_enterprise_empty:
  "score_micro_enterprise Map.empty = Inr \<lparr> cr_score = 0.25, cr_label = ''Micro Enterprise'' \<rparr>"
  by code_simp

lemma id_verification_empty:
  "score_id_verification Map.empty = Inr \<lparr> cr_score = 0, cr_label = ''Identity Verification'' \<rparr>"
  by code_simp

lemma psychometric_empty:
  "score_psychometric Map.empty = Inr \<lparr> cr_score = 0.5, cr_label = ''Psychometric Assessment'' \<rparr>"
  by code_simp

text \<open>Every scorer on the empty dictionary.\<close>

lemmas scorers_empty = land_asset_empty crop_consistency_empty subsidy_linkage_empty market_engagement_empty academic_performance_empty scholarship_history_empty skill_certifications_empty attendance_discipline_empty part_time_income_empty future_potential_empty daily_income_consistency_empty rental_discipline_empty utility_discipline_empty savings_habit_empty community_trust_empty mobile_behaviour_empty years_in_trade_empty household_budgeting_empty micro_enterprise_empty id_verification_empty psychometric_empty

lemma empty_farmer:
  "(case compute_persona_score ''farmer'' Map.empty of Inl e \<Rightarrow> None
    | Inr r \<Rightarrow> Some (ps_trust_score r, ps_confidence r)) = Some (373, 0.30)"
  by (simp add: compute_persona_score_def PERSONAS_def CRITERIA_REGISTRY_def scorers_empty
      bind_err_def clip_def py_round_def round_half_even_def Let_def)

lemma empty_student:
  "(case compute_persona_score ''student'' Map.empty of Inl e \<Rightarrow> None
    | Inr r \<Rightarrow> Some (ps_trust_score r, ps_confidence r)) = Some (336, 0.30)"
  by (simp add: compute_persona_score_def PERSONAS_def CRITERIA_REGISTRY_def scorers_empty
      bind_err_def clip_def py_round_def round_half_even_def Let_def)

lemma empty_street_vendor:
  "(case compute_persona_score ''street_vendor'' Map.empty of Inl e \<Rightarrow> None
    | Inr r \<Rightarrow> Some (ps_trust_score r, ps_confidence r)) = Some (400, 0.30)"
  by (simp add: compute_persona_score_def PERSONAS_def CRITERIA_REGISTRY_def scorers_empty
      bind_err_def clip_def py_round_def round_half_even_def Let_def)

lemma empty_homemaker:
  "(case compute_persona_score ''homemaker'' Map.empty of Inl e \<Rightarrow> None
    | Inr r \<Rightarrow> Some (ps_trust_score r, ps_confidence r)) = Some (374, 0.30)"
  by (simp add: compute_persona_score_def PERSONAS_def CRITERIA_REGISTRY_def scorers_empty
      bind_err_def clip_def py_round_def round_half_even_def Let_def)

lemma empty_general_no_bank:
  "(case compute_persona_score ''general_no_bank'' Map.empty of Inl e \<Rightarrow> None
    | Inr r \<Rightarrow> Some (ps_trust_score r, ps_confidence r)) = Some (411, 0.43)"
  by (simp add: compute_persona_score_def PERSONAS_def CRITERIA_REGISTRY_def scorers_empty
      bind_err_def clip_def py_round_def round_half_even_def Let_def)


lemma returns_from_case:
  assumes "(case m of Inl e \<Rightarrow> None | Inr r \<Rightarrow> Some (ps_trust_score r, ps_confidence r))
             = Some (t, c)"
  shows "\<exists>r. m = Inr r \<and> ps_trust_score r = t \<and> ps_confidence r = c"
  using assms by (cases m) auto

text \<open>
  Claim C8.  For each of the five personas, \<open>compute_persona_score\<close> on the empty input
  dictionary returns a result (no scorer raises) whose trust score lies in [300, 900]
  and whose confidence is at least 0.30.  The values are 373, 336, 400, 374 and 411,
  with confidence 0.30 except 0.43 for the last.
\<close>

theorem C8_empty_input_scores:
  "(\<exists>r. compute_persona_score ''farmer'' Map.empty = Inr r
        \<and> 300 \<le> ps_trust_score r \<and> ps_trust_score r \<le> 900 \<and> 0.30 \<le> ps_confidence r
        \<and> ps_trust_score r = 373 \<and> ps_confidence r = 0.30)
   \<and> (\<exists>r. compute_persona_score ''student'' Map.empty = Inr r
        \<and> 300 \<le> ps_trust_score r \<and> ps_trust_score r \<le> 900 \<and> 0.30 \<le> ps_confidence r
        \<and> ps_trust_score r = 336 \<and> ps_confidence r = 0.30)
   \<and> (\<exists>r. compute_persona_score ''street_vendor'' Map.empty = Inr r
        \<and> 300 \<le> ps_trust_score r \<and> ps_trust_score r \<le> 900 \<and> 0.30 \<le> ps_confidence r
        \<and> ps_trust_score r = 400 \<and> ps_confidence r = 0.30)
   \<and> (\<exists>r. compute_persona_score ''homemaker'' Map.empty = Inr r
        \<and> 300 \<le> ps_trust_score r \<and> ps_trust_score r \<le> 900 \<and> 0.30 \<le> ps_confidence r
        \<and> ps_trust_score r = 374 \<and> ps_confidence r = 0.30)
   \<and> (\<exists>r. compute_persona_score ''general_no_bank'' Map.empty = Inr r
        \<and> 300 \<le> ps_trust_score r \<and> ps_trust_score r \<le> 900 \<and> 0.30 \<le> ps_confidence r
        \<and> ps_trust_score r = 411 \<and> ps_confidence r = 0.43)
   \<and> map fst PERSONAS
        = [''farmer'', ''student'', ''street_vendor'', ''homemaker'', ''general_no_bank'']"
proof -
  have "\<exists>r. compute_persona_score p Map.empty = Inr r
          \<and> 300 \<le> ps_trust_score r \<and> ps_trust_score r \<le> 900 \<and> 0.30 \<le> ps_confidence r
          \<and> ps_trust_score r = t \<and> ps_confidence r = c"
    if "(case compute_persona_score p Map.empty of Inl e \<Rightarrow> None
         | Inr r \<Rightarrow> Some (ps_trust_score r, ps_confidence r)) = Some (t, c)" for p t c
  proof -
    from returns_from_case [OF that] obtain r
      where r: "compute_persona_score p Map.empty = Inr r" "ps_trust_score r = t"
        "ps_confidence r = c" by blast
    with persona_score_range [OF r(1)] show ?thesis by blast
  qed
  from this [OF empty_farmer] this [OF empty_student] this [OF empty_street_vendor]
    this [OF empty_homemaker] this [OF empty_general_no_bank]
  show ?thesis by (simp add: PERSONAS_def)
qed

subsection \<open>Unknown keys\<close>

lemma build_persona_loan_detail_key [simp]:
  "ld_key (build_persona_loan_detail k loan score income tier rep el) = k"
  by (simp add: build_persona_loan_detail_def Let_def split_def)

lemma estimate_income_unknown:
  assumes "persona \<notin> fst ` set PERSONA_LOANS"
  shows "estimate_income_from_persona persona data = Inr 10000"
  using assms by (simp add: estimate_income_from_persona_def PERSONA_LOANS_def)

lemma persona_loan_catalog_unknown:
  assumes "persona \<notin> fst ` set PERSONA_LOANS"
  shows "persona_loan_catalog persona = PERSONA_LOANS_general_no_bank"
proof -
  from assms have "map_of PERSONA_LOANS persona = None"
    by (simp add: map_of_eq_None_iff)
  then show ?thesis by (simp add: persona_loan_catalog_def)
qed

lemma recommendations_keys:
  assumes "get_persona_loan_recommendations persona score data income = Inr r"
  shows "set (map ld_key (rec_eligible_loans r @ rec_ineligible_loans r))
           = fst ` set (persona_loan_catalog persona)"
proof -
  define P where "P = (\<lambda>d :: loan_detail. ld_eligible d)"
  have s: "set (filter P xs) \<union> set (filter (\<lambda>d. \<not> P d) xs) = set xs" for xs :: "loan_detail list"
    by auto
  from assms show ?thesis
    unfolding get_persona_loan_recommendations_def bind_err_def Let_def
    by (auto simp: image_Un image_image split_def split: sum.splits if_splits)
      (force simp: image_iff)+
qed





end
